theory Spec2Isabelle
  imports
    Complex_Main
    "HOL-Library.Word"
    "HOL-Library.Multiset"
    "HOL-Library.Char_ord"
    "HOL-Library.List_Lexorder"
    "HOL-Library.Product_Lexorder"
begin

section \<open>Data model\<close>

text \<open>
  The pipeline of \<^verbatim>\<open>main.py\<close> works on pandas data frames. A frame is modelled as its
  list of column labels (in order) together with its rows. A row carries one field for every
  column the pipeline ever reads or writes; a field whose label is not among the frame's
  \<open>columns\<close> belongs to no column and is never read (every access checks the label first,
  as pandas raises \<^verbatim>\<open>KeyError\<close>).

  \<^item> \<open>ticker\<close> is a Python string, compared by code point (lexicographic order on
    \<open>char list\<close>).
  \<^item> \<open>date\<close> is the text of the CSV cell before \<^verbatim>\<open>pd.to_datetime\<close> and a calendar
    date (year, month, day), ordered lexicographically, after it. The row type is
    polymorphic in it.
  \<^item> \<open>open\<close>, \<open>high\<close>, \<open>low\<close>, \<open>close\<close> and the indicators are float64 columns. A finite
    float64 is modelled by the rational number it denotes; first, last, maximum and minimum
    select one of the given values and need no arithmetic. The arithmetic of the moving
    averages is a parameter (see step 3). The field of
    the column \<open>open\<close> is called \<open>open_p\<close> (the name \<open>open\<close> is taken in HOL). A missing
    value (\<^verbatim>\<open>NaN\<close>) of an indicator is \<open>None\<close>. The price and volume cells of the input
    are present (the raw record of the data model has no missing field).
  \<^item> \<open>volume\<close> is an int64 column: a 64-bit word, whose sum wraps.
\<close>

type_synonym date = "int \<times> nat \<times> nat"

record 'd row =
  ticker :: string
  date :: 'd
  open_p :: rat
  high :: rat
  low :: rat
  close :: rat
  volume :: "64 word"
  SMA_10 :: "rat option"
  SMA_20 :: "rat option"
  EMA_10 :: "rat option"
  EMA_20 :: "rat option"

record 'd frame =
  columns :: "string list"
  rows :: "'d row list"

text \<open>
  The exceptions the pipeline can meet, under the names of the specification's taxonomy:
  \<open>SchemaError\<close> is pandas' \<^verbatim>\<open>KeyError\<close> for absent column labels (it carries them),
  \<open>ParseError\<close> is the \<^verbatim>\<open>ValueError\<close> of \<^verbatim>\<open>pd.to_datetime\<close> (it carries the text
  that did not parse), \<open>IOError\<close> is the \<^verbatim>\<open>OSError\<close> of a write that fails (it carries the
  path).
\<close>

datatype error = SchemaError "string list" | ParseError string | IOError string

section \<open>Step 1: \<^verbatim>\<open>load_and_prepare_data\<close>\<close>

text \<open>
  \<^verbatim>\<open>df['date'] = pd.to_datetime(df['date'])\<close>. The parser of pandas is a parameter
  \<open>parse\<close>: \<open>None\<close> where \<^verbatim>\<open>pd.to_datetime\<close> raises. The first cell that does not parse
  raises; otherwise the column is replaced by the parsed dates. Every date cell holds text:
  an empty cell, which pandas reads as a missing value and \<^verbatim>\<open>pd.to_datetime\<close> turns into
  \<^verbatim>\<open>NaT\<close> without raising, is outside the model.
\<close>

definition set_date :: "'e \<Rightarrow> 'd row \<Rightarrow> 'e row" where
  "set_date d r =
     \<lparr>ticker = ticker r, date = d, open_p = open_p r, high = high r, low = low r,
      close = close r, volume = volume r, SMA_10 = SMA_10 r, SMA_20 = SMA_20 r,
      EMA_10 = EMA_10 r, EMA_20 = EMA_20 r\<rparr>"

fun to_datetime :: "(string \<Rightarrow> date option) \<Rightarrow> string row list \<Rightarrow> error + date row list" where
  "to_datetime parse [] = Inr []"
| "to_datetime parse (r # rs) =
     (case parse (date r) of
        None \<Rightarrow> Inl (ParseError (date r))
      | Some d \<Rightarrow>
          (case to_datetime parse rs of
             Inl e \<Rightarrow> Inl e
           | Inr out \<Rightarrow> Inr (set_date d r # out)))"

text \<open>
  \<^verbatim>\<open>df.sort_values(by=['ticker', 'date'])\<close>. With two sort labels pandas sorts through a
  lexicographic indexer, which is stable; \<open>sort_key\<close> is a stable sort. A label that is
  not a column raises \<^verbatim>\<open>KeyError\<close>, \<open>ticker\<close> looked up first.
\<close>

definition sort_by :: "'d row \<Rightarrow> string \<times> 'd" where
  "sort_by r = (ticker r, date r)"

definition sort_values :: "('d::linorder) frame \<Rightarrow> error + 'd frame" where
  "sort_values df =
     (if ''ticker'' \<notin> set (columns df) then Inl (SchemaError [''ticker''])
      else if ''date'' \<notin> set (columns df) then Inl (SchemaError [''date''])
      else Inr \<lparr>columns = columns df, rows = sort_key sort_by (rows df)\<rparr>)"

text \<open>
  The argument is the frame \<^verbatim>\<open>pd.read_csv\<close> returned: the header of the file and its
  rows, the date still text.
\<close>

definition load_and_prepare_data ::
  "(string \<Rightarrow> date option) \<Rightarrow> string frame \<Rightarrow> error + date frame" where
  "load_and_prepare_data parse csv =
     (if ''date'' \<notin> set (columns csv) then Inl (SchemaError [''date''])
      else case to_datetime parse (rows csv) of
             Inl e \<Rightarrow> Inl e
           | Inr rs \<Rightarrow> sort_values \<lparr>columns = columns csv, rows = rs\<rparr>)"

section \<open>Step 2: \<^verbatim>\<open>aggregate_to_monthly\<close>\<close>

text \<open>
  \<^verbatim>\<open>pd.Grouper(key='date', freq='ME')\<close> puts a date into the bin of its calendar month,
  labelled by the last day of that month.
\<close>

definition is_leap :: "int \<Rightarrow> bool" where
  "is_leap y \<longleftrightarrow> y mod 4 = 0 \<and> (y mod 100 \<noteq> 0 \<or> y mod 400 = 0)"

definition days_in_month :: "int \<Rightarrow> nat \<Rightarrow> nat" where
  "days_in_month y m =
     (if m = 2 then (if is_leap y then 29 else 28)
      else if m = 4 \<or> m = 6 \<or> m = 9 \<or> m = 11 then 30 else 31)"

definition month_end :: "date \<Rightarrow> date" where
  "month_end d = (case d of (y, m, _) \<Rightarrow> (y, m, days_in_month y m))"

definition group_key :: "date row \<Rightarrow> string \<times> date" where
  "group_key r = (ticker r, month_end (date r))"

text \<open>
  The keys of the dictionary passed to \<^verbatim>\<open>.agg\<close>, in the order the source writes them:
  the aggregated columns of the result come out in this order.
\<close>

definition agg_columns :: "string list" where
  "agg_columns = [''open'', ''close'', ''high'', ''low'', ''volume'']"

text \<open>
  One group \<open>g\<close> (the rows of one ticker and month, in the order of the frame) reduced to a
  row: \<^verbatim>\<open>'open': 'first'\<close>, \<^verbatim>\<open>'close': 'last'\<close>, \<^verbatim>\<open>'high': 'max'\<close>,
  \<^verbatim>\<open>'low': 'min'\<close>, \<^verbatim>\<open>'volume': 'sum'\<close>. A group is never empty. The result has
  no indicator column.
\<close>

definition agg_group :: "string \<times> date \<Rightarrow> date row list \<Rightarrow> date row" where
  "agg_group k g =
     \<lparr>ticker = fst k, date = snd k,
      open_p = open_p (hd g),
      high = Max (set (map high g)),
      low = Min (set (map low g)),
      close = close (last g),
      volume = sum_list (map volume g),
      SMA_10 = None, SMA_20 = None, EMA_10 = None, EMA_20 = None\<rparr>"

text \<open>
  \<^verbatim>\<open>df.groupby(['ticker', pd.Grouper(key='date', freq='ME')]).agg({...}).reset_index()\<close>:
  one row for each observed (ticker, month) pair, the pairs in ascending order
  (\<^verbatim>\<open>sort=True\<close>); \<^verbatim>\<open>reset_index\<close> puts the two group keys in front of the aggregated
  columns. A grouping label or an aggregated label that is not a column raises
  \<^verbatim>\<open>KeyError\<close>; for the aggregated labels it names all the absent ones, sorted.
\<close>

definition aggregate_to_monthly :: "date frame \<Rightarrow> error + date frame" where
  "aggregate_to_monthly df =
     (if ''ticker'' \<notin> set (columns df) then Inl (SchemaError [''ticker''])
      else if ''date'' \<notin> set (columns df) then Inl (SchemaError [''date''])
      else if \<not> set agg_columns \<subseteq> set (columns df)
        then Inl (SchemaError (sort (filter (\<lambda>c. c \<notin> set (columns df)) agg_columns)))
      else Inr \<lparr>columns = [''ticker'', ''date''] @ agg_columns,
                rows = map (\<lambda>k. agg_group k (filter (\<lambda>r. group_key r = k) (rows df)))
                           (sort (remdups (map group_key (rows df))))\<rparr>)"

section \<open>Step 3: \<^verbatim>\<open>add_technical_indicators\<close>\<close>

text \<open>
  The two moving averages are computed by compiled float64 kernels of pandas. Their
  arithmetic (the rounding of every operation, the compensated running sums of the rolling
  mean) is not modelled: the kernels are parameters, and everything proved below holds for
  every choice of them.
  \<^item> \<open>roll w seen\<close> is the value of the rolling-mean kernel for the window size \<open>w\<close> once it
    has consumed the values \<open>seen\<close> (the series up to and including the current position; the
    kernel keeps running sums, so its value may depend on more than the last \<open>w\<close> values).
  \<^item> \<open>ewm s weighted cur\<close> is the value that the exponentially weighted kernel for span
    \<open>s\<close> assigns to its running value \<open>weighted\<close> on the observation \<open>cur\<close>: with
    \<open>com = (s - 1) / 2\<close>, \<open>\<alpha> = 1 / (1 + com)\<close>, the old weight \<open>1 - \<alpha>\<close> and the new weight
    \<open>\<alpha>\<close>, the float64 value of \<open>(old_wt * weighted + new_wt * cur) / (old_wt + new_wt)\<close>.
\<close>

record numerics =
  roll :: "nat \<Rightarrow> rat list \<Rightarrow> rat"
  ewm :: "nat \<Rightarrow> rat \<Rightarrow> rat \<Rightarrow> rat"

text \<open>
  \<^verbatim>\<open>x.rolling(window=w).mean()\<close>: at position \<open>i\<close> the window holds the last \<open>w\<close> values
  up to and including \<open>i\<close> (fewer near the start); with fewer than \<^verbatim>\<open>min_periods\<close>
  (by default \<open>w\<close>) values the result is \<^verbatim>\<open>NaN\<close>, otherwise it is the kernel's value.
\<close>

definition rolling_mean :: "numerics \<Rightarrow> nat \<Rightarrow> rat list \<Rightarrow> rat option list" where
  "rolling_mean K w xs =
     map (\<lambda>i. let win = drop (Suc i - w) (take (Suc i) xs)
               in if length win < w then None
                  else Some (roll K w (take (Suc i) xs)))
         [0..<length xs]"

text \<open>
  \<^verbatim>\<open>x.ewm(span=s, adjust=False).mean()\<close>: the loop keeps the running value \<open>weighted\<close>,
  seeded with the first observation; for each further observation \<open>cur\<close>, a value equal to
  the running one leaves it as it is, and otherwise the kernel updates it.
  \<^verbatim>\<open>min_periods\<close> is 0: every position has a value.
\<close>

fun ewm_loop :: "(rat \<Rightarrow> rat \<Rightarrow> rat) \<Rightarrow> rat \<Rightarrow> rat list \<Rightarrow> rat list" where
  "ewm_loop update weighted [] = []"
| "ewm_loop update weighted (cur # xs) =
     (let weighted' = (if weighted \<noteq> cur then update weighted cur else weighted)
      in weighted' # ewm_loop update weighted' xs)"

definition ewm_mean :: "numerics \<Rightarrow> nat \<Rightarrow> rat list \<Rightarrow> rat option list" where
  "ewm_mean K s xs =
     (case xs of
        [] \<Rightarrow> []
      | x # rest \<Rightarrow> map Some (x # ewm_loop (ewm K s) x rest))"

text \<open>
  \<^verbatim>\<open>df.groupby('ticker')['close'].transform(f)\<close>: \<open>f\<close> is applied to the close series of
  each ticker (the values of its rows in the order of the frame), and each result goes back
  to the position of its row. \<open>group_transform\<close> does this for a column of keys and a column
  of values: position \<open>i\<close> gets the entry of its group's result at the rank of \<open>i\<close> within
  the group.
\<close>

definition group_values :: "'k list \<Rightarrow> 'v list \<Rightarrow> 'k \<Rightarrow> 'v list" where
  "group_values keys vals t = map snd (filter (\<lambda>(k, v). k = t) (zip keys vals))"

definition group_transform :: "('v list \<Rightarrow> 'b list) \<Rightarrow> 'k list \<Rightarrow> 'v list \<Rightarrow> 'b list" where
  "group_transform f keys vals =
     map (\<lambda>i. f (group_values keys vals (keys ! i))
               ! length (filter (\<lambda>k. k = keys ! i) (take i keys)))
         [0..<length keys]"

definition transform :: "(rat list \<Rightarrow> 'b list) \<Rightarrow> 'd row list \<Rightarrow> 'b list" where
  "transform f rs = group_transform f (map ticker rs) (map close rs)"

text \<open>
  \<^verbatim>\<open>df[name] = col\<close>: an existing column is overwritten, a new label is appended after
  the others. \<open>upd\<close> writes the field that the label names.
\<close>

definition add_label :: "string \<Rightarrow> string list \<Rightarrow> string list" where
  "add_label name cs = (if name \<in> set cs then cs else cs @ [name])"

definition setitem ::
  "string \<Rightarrow> ('b \<Rightarrow> 'd row \<Rightarrow> 'd row) \<Rightarrow> 'b list \<Rightarrow> 'd frame \<Rightarrow> 'd frame" where
  "setitem name upd col df =
     \<lparr>columns = add_label name (columns df),
      rows = map2 (\<lambda>r v. upd v r) (rows df) col\<rparr>"

text \<open>
  Data frames are mutable objects, and the function both rebinds its parameter and assigns
  columns. The store is the list of the frames allocated so far, an address is a position
  in it. \<^verbatim>\<open>df = df.sort_values(...)\<close> allocates the sorted frame and rebinds the local
  name to it; the four column assignments then mutate the frame the local name points to.
  The function returns that address.
\<close>

type_synonym addr = nat
type_synonym heap = "date frame list"

definition alloc :: "date frame \<Rightarrow> heap \<Rightarrow> addr \<times> heap" where
  "alloc f h = (length h, h @ [f])"

definition assign_column ::
  "addr \<Rightarrow> string \<Rightarrow> ('b \<Rightarrow> date row \<Rightarrow> date row) \<Rightarrow> 'b list \<Rightarrow> heap \<Rightarrow> heap" where
  "assign_column a name upd col h = h[a := setitem name upd col (h ! a)]"

definition add_technical_indicators_st ::
  "numerics \<Rightarrow> addr \<Rightarrow> heap \<Rightarrow> error + (addr \<times> heap)" where
  "add_technical_indicators_st K a h =
     (case sort_values (h ! a) of
        Inl e \<Rightarrow> Inl e
      | Inr sorted_df \<Rightarrow>
          (let (df, h0) = alloc sorted_df h
           in if ''close'' \<notin> set (columns (h0 ! df)) then Inl (SchemaError [''close''])
              else
                let h1 = assign_column df ''SMA_10'' (\<lambda>v r. r\<lparr>SMA_10 := v\<rparr>)
                           (transform (rolling_mean K 10) (rows (h0 ! df))) h0;
                    h2 = assign_column df ''SMA_20'' (\<lambda>v r. r\<lparr>SMA_20 := v\<rparr>)
                           (transform (rolling_mean K 20) (rows (h1 ! df))) h1;
                    h3 = assign_column df ''EMA_10'' (\<lambda>v r. r\<lparr>EMA_10 := v\<rparr>)
                           (transform (ewm_mean K 10) (rows (h2 ! df))) h2;
                    h4 = assign_column df ''EMA_20'' (\<lambda>v r. r\<lparr>EMA_20 := v\<rparr>)
                           (transform (ewm_mean K 20) (rows (h3 ! df))) h3
                in Inr (df, h4)))"

text \<open>
  The function as its caller sees the result: the frame at the returned address, for a
  caller that holds the argument as the only frame.
\<close>

definition add_technical_indicators :: "numerics \<Rightarrow> date frame \<Rightarrow> error + date frame" where
  "add_technical_indicators K df =
     (case add_technical_indicators_st K 0 [df] of
        Inl e \<Rightarrow> Inl e
      | Inr (a, h) \<Rightarrow> Inr (h ! a))"

subsection \<open>The result in closed form\<close>

text \<open>
  These are not translations of the source: they name the frame that the function is proved
  to return. \<open>with_columns\<close> writes four columns into the indicator fields;
  \<open>series_indicators\<close> does so for the rows of one ticker, from its own close series;
  \<open>indicator_frame\<close> is the whole result.
\<close>

definition with_columns ::
  "date row list \<Rightarrow> rat option list \<Rightarrow> rat option list \<Rightarrow> rat option list \<Rightarrow>
     rat option list \<Rightarrow> date row list" where
  "with_columns rs c1 c2 c3 c4 =
     map2 (\<lambda>r v. r\<lparr>EMA_20 := v\<rparr>)
       (map2 (\<lambda>r v. r\<lparr>EMA_10 := v\<rparr>)
         (map2 (\<lambda>r v. r\<lparr>SMA_20 := v\<rparr>)
           (map2 (\<lambda>r v. r\<lparr>SMA_10 := v\<rparr>) rs c1) c2) c3) c4"

definition series_indicators :: "numerics \<Rightarrow> date row list \<Rightarrow> date row list" where
  "series_indicators K g =
     with_columns g (rolling_mean K 10 (map close g)) (rolling_mean K 20 (map close g))
       (ewm_mean K 10 (map close g)) (ewm_mean K 20 (map close g))"

definition indicator_frame :: "numerics \<Rightarrow> date frame \<Rightarrow> date frame" where
  "indicator_frame K df =
     (let rs = sort_key sort_by (rows df)
      in \<lparr>columns = add_label ''EMA_20'' (add_label ''EMA_10''
                      (add_label ''SMA_20'' (add_label ''SMA_10'' (columns df)))),
          rows = with_columns rs (transform (rolling_mean K 10) rs)
                   (transform (rolling_mean K 20) rs)
                   (transform (ewm_mean K 10) rs) (transform (ewm_mean K 20) rs)\<rparr>)"

section \<open>Step 4: \<^verbatim>\<open>save_by_ticker\<close>\<close>

text \<open>
  A written file is its header line and its lines of cells. \<^verbatim>\<open>to_csv(path, index=False)\<close>
  writes the column labels as the header and, for every row, the cells of these columns in
  the same order; the index is not written. A missing value is an empty cell. \<open>to_csv\<close> is
  the contents that the call writes.
\<close>

datatype cell = CStr string | CDate date | CNum rat | CInt "64 word" | CNull

record csv_file =
  header :: "string list"
  body :: "cell list list"

definition num_cell :: "rat option \<Rightarrow> cell" where
  "num_cell v = (case v of None \<Rightarrow> CNull | Some x \<Rightarrow> CNum x)"

definition cell_of :: "string \<Rightarrow> date row \<Rightarrow> cell" where
  "cell_of c r =
     (if c = ''ticker'' then CStr (ticker r)
      else if c = ''date'' then CDate (date r)
      else if c = ''open'' then CNum (open_p r)
      else if c = ''high'' then CNum (high r)
      else if c = ''low'' then CNum (low r)
      else if c = ''close'' then CNum (close r)
      else if c = ''volume'' then CInt (volume r)
      else if c = ''SMA_10'' then num_cell (SMA_10 r)
      else if c = ''SMA_20'' then num_cell (SMA_20 r)
      else if c = ''EMA_10'' then num_cell (EMA_10 r)
      else if c = ''EMA_20'' then num_cell (EMA_20 r)
      else CNull)"

definition to_csv :: "date frame \<Rightarrow> csv_file" where
  "to_csv df =
     \<lparr>header = columns df,
      body = map (\<lambda>r. map (\<lambda>c. cell_of c r) (columns df)) (rows df)\<rparr>"

text \<open>\<^verbatim>\<open>Series.unique()\<close>: the distinct values in the order of their first appearance.\<close>

definition unique :: "'a list \<Rightarrow> 'a list" where
  "unique xs = rev (remdups (rev xs))"

text \<open>\<^verbatim>\<open>os.path.join\<close> of two components on a POSIX system.\<close>

definition path_join :: "string \<Rightarrow> string \<Rightarrow> string" where
  "path_join a b =
     (if b \<noteq> [] \<and> hd b = CHR ''/'' then b
      else if a = [] \<or> last a = CHR ''/'' then a @ b
      else a @ ''/'' @ b)"

text \<open>
  Writing can fail: \<^verbatim>\<open>to_csv\<close> raises \<^verbatim>\<open>OSError\<close> when the directory of the path does
  not exist (a symbol is put into the file name as it is, so a symbol with a \<open>/\<close> names a file
  in a directory that nobody created), and the operating system can refuse the file. Whether
  the file at a path can be written is the parameter \<open>writable\<close>.

  The loop over the tickers writes one file per iteration, in the order of the tickers; the
  first write that fails raises, and the iterations after it do not run. Paths are compared
  as text (a file system that distinguishes upper and lower case). The result is the
  list of the files written, path and contents, in the order of the writes, and the
  exception, if one was raised: the files written before it stay.
\<close>

type_synonym written = "(string \<times> csv_file) list"

fun write_tickers ::
  "(string \<Rightarrow> bool) \<Rightarrow> date frame \<Rightarrow> string \<Rightarrow> string list \<Rightarrow> written \<times> error option" where
  "write_tickers writable df output_folder [] = ([], None)"
| "write_tickers writable df output_folder (symbol # tickers) =
     (let ticker_df = \<lparr>columns = columns df,
                       rows = filter (\<lambda>r. ticker r = symbol) (rows df)\<rparr>;
          file_name = ''result_'' @ symbol @ ''.csv'';
          file_path = path_join output_folder file_name
      in if \<not> writable file_path then ([], Some (IOError file_path))
         else (case write_tickers writable df output_folder tickers of
                 (files, e) \<Rightarrow> ((file_path, to_csv ticker_df) # files, e)))"

definition save_by_ticker ::
  "(string \<Rightarrow> bool) \<Rightarrow> date frame \<Rightarrow> string \<Rightarrow> written \<times> error option" where
  "save_by_ticker writable df output_folder =
     (if ''ticker'' \<notin> set (columns df) then ([], Some (SchemaError [''ticker'']))
      else write_tickers writable df output_folder (unique (map ticker (rows df))))"

section \<open>The script\<close>

definition OUTPUT_DIR :: string where
  "OUTPUT_DIR = ''output''"

text \<open>
  The script creates the output directory and then runs the four steps in sequence inside
  one \<^verbatim>\<open>try\<close>: the first exception ends the run (it is logged, and no later step runs).
  The result is the list of the files the run wrote and the exception that ended it, if any;
  \<open>writable\<close> describes the file system once the output directory exists.
\<close>

definition main ::
  "(string \<Rightarrow> bool) \<Rightarrow> numerics \<Rightarrow> (string \<Rightarrow> date option) \<Rightarrow> string frame \<Rightarrow>
     written \<times> error option" where
  "main writable K parse csv =
     (case load_and_prepare_data parse csv of
        Inl e \<Rightarrow> ([], Some e)
      | Inr raw_data \<Rightarrow>
          (case aggregate_to_monthly raw_data of
             Inl e \<Rightarrow> ([], Some e)
           | Inr monthly_data \<Rightarrow>
               (case add_technical_indicators K monthly_data of
                  Inl e \<Rightarrow> ([], Some e)
                | Inr final_data \<Rightarrow> save_by_ticker writable final_data OUTPUT_DIR)))"

section \<open>Sample data\<close>

text \<open>
  A row with the seven input fields and no indicator, the header of the input file, a
  parser that knows a few ISO dates, and a small input: two tickers, out of order, with two
  rows of the same ticker and day.
\<close>

definition mk_row :: "string \<Rightarrow> 'd \<Rightarrow> rat \<Rightarrow> rat \<Rightarrow> rat \<Rightarrow> rat \<Rightarrow> 64 word \<Rightarrow> 'd row" where
  "mk_row t d o_p h l c v =
     \<lparr>ticker = t, date = d, open_p = o_p, high = h, low = l, close = c, volume = v,
      SMA_10 = None, SMA_20 = None, EMA_10 = None, EMA_20 = None\<rparr>"

definition raw_columns :: "string list" where
  "raw_columns = [''ticker'', ''date'', ''open'', ''high'', ''low'', ''close'', ''volume'']"

definition example_parse :: "string \<Rightarrow> date option" where
  "example_parse =
     map_of [(''2024-01-05'', (2024, 1, 5)), (''2024-01-20'', (2024, 1, 20)),
             (''2024-02-10'', (2024, 2, 10))]"

definition example_csv :: "string frame" where
  "example_csv =
     \<lparr>columns = raw_columns,
      rows = [mk_row ''MSFT'' ''2024-01-05'' 10 12 9 11 100,
              mk_row ''AAPL'' ''2024-01-20'' 5 8 4 6 30,
              mk_row ''AAPL'' ''2024-01-05'' 3 7 2 4 20,
              mk_row ''AAPL'' ''2024-01-20'' 6 9 5 7 40,
              mk_row ''AAPL'' ''2024-02-10'' 7 7 7 7 50]\<rparr>"

text \<open>A month with a single row, and a month of two rows in both orders.\<close>

definition single_day :: "date frame" where
  "single_day = \<lparr>columns = raw_columns, rows = [mk_row ''AAPL'' (2024, 2, 10) 1 3 0 2 10]\<rparr>"

definition sorted_month :: "date frame" where
  "sorted_month =
     \<lparr>columns = raw_columns,
      rows = [mk_row ''AAPL'' (2024, 1, 5) 3 7 2 4 20,
              mk_row ''AAPL'' (2024, 1, 20) 6 9 5 7 40]\<rparr>"

definition unsorted_month :: "date frame" where
  "unsorted_month =
     \<lparr>columns = raw_columns,
      rows = [mk_row ''AAPL'' (2024, 1, 20) 6 9 5 7 40,
              mk_row ''AAPL'' (2024, 1, 5) 3 7 2 4 20]\<rparr>"

text \<open>
  Two monthly tables: thirteen months of ticker AAA with closes 1 to 13, among rows of other
  tickers that differ between the two tables.
\<close>

definition monthly_13 :: "date frame" where
  "monthly_13 =
     \<lparr>columns = [''ticker'', ''date'', ''open'', ''close'', ''high'', ''low'', ''volume''],
      rows = [mk_row ''BBB'' (2023, 2, 28) 50 50 50 50 100,
              mk_row ''AAA'' (2023, 1, 31) 1 1 1 1 100,
              mk_row ''AAA'' (2023, 2, 28) 2 2 2 2 100,
              mk_row ''AAA'' (2023, 3, 31) 3 3 3 3 100,
              mk_row ''AAA'' (2023, 4, 30) 4 4 4 4 100,
              mk_row ''AAA'' (2023, 5, 31) 5 5 5 5 100,
              mk_row ''BBB'' (2023, 1, 31) 40 40 40 40 100,
              mk_row ''AAA'' (2023, 6, 30) 6 6 6 6 100,
              mk_row ''AAA'' (2023, 7, 31) 7 7 7 7 100,
              mk_row ''AAA'' (2023, 8, 31) 8 8 8 8 100,
              mk_row ''AAA'' (2023, 9, 30) 9 9 9 9 100,
              mk_row ''AAA'' (2023, 10, 31) 10 10 10 10 100,
              mk_row ''AAA'' (2023, 11, 30) 11 11 11 11 100,
              mk_row ''AAA'' (2023, 12, 31) 12 12 12 12 100,
              mk_row ''AAA'' (2024, 1, 31) 13 13 13 13 100]\<rparr>"

definition monthly_13_other :: "date frame" where
  "monthly_13_other =
     \<lparr>columns = [''ticker'', ''date'', ''open'', ''close'', ''high'', ''low'', ''volume''],
      rows = [mk_row ''BBB'' (2023, 2, 28) 7 7 7 7 100,
              mk_row ''AAA'' (2023, 1, 31) 1 1 1 1 100,
              mk_row ''AAA'' (2023, 2, 28) 2 2 2 2 100,
              mk_row ''AAA'' (2023, 3, 31) 3 3 3 3 100,
              mk_row ''AAA'' (2023, 4, 30) 4 4 4 4 100,
              mk_row ''AAA'' (2023, 5, 31) 5 5 5 5 100,
              mk_row ''CCC'' (2023, 1, 31) 9 9 9 9 100,
              mk_row ''BBB'' (2023, 3, 31) 8 8 8 8 100,
              mk_row ''AAA'' (2023, 6, 30) 6 6 6 6 100,
              mk_row ''AAA'' (2023, 7, 31) 7 7 7 7 100,
              mk_row ''AAA'' (2023, 8, 31) 8 8 8 8 100,
              mk_row ''AAA'' (2023, 9, 30) 9 9 9 9 100,
              mk_row ''AAA'' (2023, 10, 31) 10 10 10 10 100,
              mk_row ''AAA'' (2023, 11, 30) 11 11 11 11 100,
              mk_row ''AAA'' (2023, 12, 31) 12 12 12 12 100,
              mk_row ''AAA'' (2024, 1, 31) 13 13 13 13 100]\<rparr>"


text \<open>
  Faulty inputs: a date that does not parse, and headers without the date column, without
  the ticker column and without the open column.
\<close>

definition bad_date_csv :: "string frame" where
  "bad_date_csv =
     \<lparr>columns = raw_columns,
      rows = [mk_row ''AAPL'' ''2024-01-05'' 3 7 2 4 20,
              mk_row ''AAPL'' ''not-a-date'' 5 8 4 6 30,
              mk_row ''MSFT'' ''2024-01-20'' 10 12 9 11 100]\<rparr>"

definition no_date_csv :: "string frame" where
  "no_date_csv =
     \<lparr>columns = [''ticker'', ''open'', ''high'', ''low'', ''close'', ''volume''],
      rows = [mk_row ''MSFT'' [] 10 12 9 11 100]\<rparr>"

definition no_ticker_csv :: "string frame" where
  "no_ticker_csv =
     \<lparr>columns = [''date'', ''open'', ''high'', ''low'', ''close'', ''volume''],
      rows = [mk_row [] ''2024-01-05'' 10 12 9 11 100]\<rparr>"

definition no_open_csv :: "string frame" where
  "no_open_csv =
     \<lparr>columns = [''ticker'', ''date'', ''high'', ''low'', ''close'', ''volume''],
      rows = [mk_row ''MSFT'' ''2024-01-05'' 0 12 9 11 100,
              mk_row ''AAPL'' ''2024-01-20'' 0 8 4 6 30]\<rparr>"

text \<open>
  The monthly table of \<open>sorted_month\<close>, and the files that the run on \<open>example_csv\<close>
  writes.
\<close>

definition monthly_jan :: "date frame" where
  "monthly_jan =
     \<lparr>columns = [''ticker'', ''date'', ''open'', ''close'', ''high'', ''low'', ''volume''],
      rows = [mk_row ''AAPL'' (2024, 1, 31) 3 9 2 7 60]\<rparr>"

definition example_files :: "(string \<times> csv_file) list" where
  "example_files =
     [(''output/result_AAPL.csv'',
       \<lparr>header = [''ticker'', ''date'', ''open'', ''close'', ''high'', ''low'', ''volume'',
                  ''SMA_10'', ''SMA_20'', ''EMA_10'', ''EMA_20''],
        body = [[CStr ''AAPL'', CDate (2024, 1, 31), CNum 3, CNum 7, CNum 9, CNum 2,
                 CInt 90, CNull, CNull, CNum 7, CNum 7],
                [CStr ''AAPL'', CDate (2024, 2, 29), CNum 7, CNum 7, CNum 7, CNum 7,
                 CInt 50, CNull, CNull, CNum 7, CNum 7]]\<rparr>),
      (''output/result_MSFT.csv'',
       \<lparr>header = [''ticker'', ''date'', ''open'', ''close'', ''high'', ''low'', ''volume'',
                  ''SMA_10'', ''SMA_20'', ''EMA_10'', ''EMA_20''],
        body = [[CStr ''MSFT'', CDate (2024, 1, 31), CNum 10, CNum 11, CNum 12, CNum 9,
                 CInt 100, CNull, CNull, CNum 11, CNum 11]]\<rparr>)]"

text \<open>
  Parameters for the samples. The kernels are taken in exact arithmetic: the rolling mean is
  the sum of the last \<open>w\<close> values over their number, and the exponentially weighted update is
  the expression of step 3 with \<open>\<alpha> = 1 / (1 + (s - 1) / 2)\<close>. No sample below states a value
  that a kernel computed. The file system has exactly the output directory, and every file
  directly in an existing directory can be written; the directory of a path is the text
  before its last \<open>/\<close>.
\<close>

definition ewm_alpha :: "nat \<Rightarrow> rat" where
  "ewm_alpha s = 1 / (1 + (of_nat s - 1) / 2)"

definition exact_numerics :: numerics where
  "exact_numerics =
     \<lparr>roll = (\<lambda>w seen. let win = drop (length seen - w) seen
                        in sum_list win / of_nat (length win)),
      ewm = (\<lambda>s weighted cur.
               let old_wt = 1 - ewm_alpha s; new_wt = ewm_alpha s
               in (old_wt * weighted + new_wt * cur) / (old_wt + new_wt))\<rparr>"

definition parent_dir :: "string \<Rightarrow> string" where
  "parent_dir p = rev (drop 1 (dropWhile (\<lambda>c. c \<noteq> CHR ''/'') (rev p)))"

definition in_directories :: "string list \<Rightarrow> string \<Rightarrow> bool" where
  "in_directories dirs p \<longleftrightarrow> parent_dir p \<in> set dirs"

definition output_only :: "string \<Rightarrow> bool" where
  "output_only = in_directories [OUTPUT_DIR]"

text \<open>An enriched table of three tickers, one of them with a \<open>/\<close> in its symbol.\<close>

definition slash_table :: "date frame" where
  "slash_table =
     \<lparr>columns = [''ticker'', ''date'', ''open'', ''close'', ''high'', ''low'', ''volume'',
                 ''SMA_10'', ''SMA_20'', ''EMA_10'', ''EMA_20''],
      rows = [(mk_row ''AAA'' (2024, 1, 31) 2 4 1 3 10)\<lparr>EMA_10 := Some 3, EMA_20 := Some 3\<rparr>,
              (mk_row ''BRK/B'' (2024, 1, 31) 5 7 5 6 20)\<lparr>EMA_10 := Some 6, EMA_20 := Some 6\<rparr>,
              (mk_row ''CCC'' (2024, 1, 31) 8 9 8 9 30)\<lparr>EMA_10 := Some 9, EMA_20 := Some 9\<rparr>]\<rparr>"

section \<open>Properties of the loader\<close>

lemma to_datetime_total:
  "\<forall>r \<in> set rs. parse (date r) \<noteq> None \<Longrightarrow>
     to_datetime parse rs = Inr (map (\<lambda>r. set_date (the (parse (date r))) r) rs)"
  by (induction rs) auto

lemma to_datetime_Inl:
  "(\<exists>e. to_datetime parse rs = Inl e) \<longleftrightarrow> (\<exists>r \<in> set rs. parse (date r) = None)"
  by (induction rs) (auto split: option.splits sum.splits)

lemma to_datetime_Inr:
  assumes "to_datetime parse rs = Inr out"
  shows "(\<forall>r \<in> set rs. parse (date r) \<noteq> None) \<and>
         out = map (\<lambda>r. set_date (the (parse (date r))) r) rs"
proof -
  have ok: "\<forall>r \<in> set rs. parse (date r) \<noteq> None"
    using assms to_datetime_Inl [of parse rs] by auto
  with assms to_datetime_total [OF ok] show ?thesis by simp
qed

lemma to_datetime_error_kind:
  "to_datetime parse rs = Inl e \<Longrightarrow> \<exists>s. e = ParseError s \<and> parse s = None"
  by (induction rs) (auto split: option.splits sum.splits)

lemma sort_values_Inr:
  "''ticker'' \<in> set (columns df) \<Longrightarrow> ''date'' \<in> set (columns df) \<Longrightarrow>
     sort_values df = Inr \<lparr>columns = columns df, rows = sort_key sort_by (rows df)\<rparr>"
  by (simp add: sort_values_def)

text \<open>
  Claim C2. For every input whose dates all parse, the loader returns the same rows (each
  with its date parsed, as a multiset), in ascending order of (ticker, date), and rows with
  equal (ticker, date) keep the order they had in the input.
\<close>

theorem loader_sorts_stably:
  assumes "''date'' \<in> set (columns csv)" and "''ticker'' \<in> set (columns csv)"
    and "\<forall>r \<in> set (rows csv). parse (date r) \<noteq> None"
  shows "\<exists>df. load_and_prepare_data parse csv = Inr df \<and>
           columns df = columns csv \<and>
           mset (rows df) = mset (map (\<lambda>r. set_date (the (parse (date r))) r) (rows csv)) \<and>
           sorted (map sort_by (rows df)) \<and>
           (\<forall>k. filter (\<lambda>r. sort_by r = k) (rows df) =
                filter (\<lambda>r. sort_by r = k)
                  (map (\<lambda>r. set_date (the (parse (date r))) r) (rows csv)))"
  using assms
  by (simp add: load_and_prepare_data_def to_datetime_total sort_values_Inr sort_key_stable)

theorem loader_sorts_stably_witness:
  "''date'' \<in> set (columns example_csv) \<and> ''ticker'' \<in> set (columns example_csv) \<and>
   None \<notin> set (map (\<lambda>r. example_parse (date r)) (rows example_csv)) \<and>
   load_and_prepare_data example_parse example_csv =
     Inr \<lparr>columns = raw_columns,
          rows = [mk_row ''AAPL'' (2024, 1, 5) 3 7 2 4 20,
                  mk_row ''AAPL'' (2024, 1, 20) 5 8 4 6 30,
                  mk_row ''AAPL'' (2024, 1, 20) 6 9 5 7 40,
                  mk_row ''AAPL'' (2024, 2, 10) 7 7 7 7 50,
                  mk_row ''MSFT'' (2024, 1, 5) 10 12 9 11 100]\<rparr>"
  using loader_sorts_stably [of example_csv example_parse]
  by (simp add: load_and_prepare_data_def example_csv_def example_parse_def raw_columns_def
      mk_row_def set_date_def sort_values_def sort_by_def)

section \<open>Properties of the monthly aggregation\<close>

lemma sort_by_agg_group [simp]: "sort_by (agg_group k g) = k"
  by (simp add: sort_by_def agg_group_def)

lemma aggregate_to_monthly_Inr:
  assumes "''ticker'' \<in> set (columns df)" "''date'' \<in> set (columns df)"
    "set agg_columns \<subseteq> set (columns df)"
  shows "aggregate_to_monthly df =
     Inr \<lparr>columns = [''ticker'', ''date''] @ agg_columns,
          rows = map (\<lambda>k. agg_group k (filter (\<lambda>r. group_key r = k) (rows df)))
                     (sort (remdups (map group_key (rows df))))\<rparr>"
  using assms by (simp add: aggregate_to_monthly_def)

lemma aggregate_to_monthly_InrD:
  assumes "aggregate_to_monthly df = Inr m"
  shows "m = \<lparr>columns = [''ticker'', ''date''] @ agg_columns,
          rows = map (\<lambda>k. agg_group k (filter (\<lambda>r. group_key r = k) (rows df)))
                     (sort (remdups (map group_key (rows df))))\<rparr>"
  using assms by (auto simp add: aggregate_to_monthly_def split: if_splits)

lemma filter_eq_distinct:
  "distinct ks \<Longrightarrow> k \<in> set ks \<Longrightarrow> filter (\<lambda>k'. k' = k) ks = [k]"
  by (induction ks) (auto simp: filter_empty_conv)

lemma monthly_row_of_key:
  assumes "k \<in> group_key ` set rs"
  shows "filter (\<lambda>q. sort_by q = k)
           (map (\<lambda>k. agg_group k (filter (\<lambda>r. group_key r = k) rs))
                (sort (remdups (map group_key rs))))
         = [agg_group k (filter (\<lambda>r. group_key r = k) rs)]"
proof -
  have "filter (\<lambda>k'. k' = k) (sort (remdups (map group_key rs))) = [k]"
    using assms by (intro filter_eq_distinct) auto
  then show ?thesis
    by (simp add: filter_map comp_def)
qed

lemma agg_group_perm:
  assumes "mset g' = mset g"
  shows "high (agg_group k g') = high (agg_group k g)"
    and "low (agg_group k g') = low (agg_group k g)"
    and "volume (agg_group k g') = volume (agg_group k g)"
proof -
  have "set g' = set g"
    using assms by (rule mset_eq_setD)
  then show "high (agg_group k g') = high (agg_group k g)"
    and "low (agg_group k g') = low (agg_group k g)"
    by (simp_all add: agg_group_def)
  have "mset (map volume g') = mset (map volume g)"
    using assms by simp
  then have "sum_list (map volume g') = sum_list (map volume g)"
    by (metis sum_mset_sum_list)
  then show "volume (agg_group k g') = volume (agg_group k g)"
    by (simp add: agg_group_def)
qed

lemma same_ticker_sorted_dates:
  "sorted (map sort_by g) \<Longrightarrow> \<forall>x \<in> set g. ticker x = t \<Longrightarrow> sorted (map date g)"
  by (induction g) (auto simp: sort_by_def)

lemma group_sorted_dates:
  assumes "sorted (map sort_by rs)"
  shows "sorted (map date (filter (\<lambda>r. group_key r = k) rs))"
proof -
  let ?g = "filter (\<lambda>r. group_key r = k) rs"
  have s: "sorted (map sort_by ?g)"
    using assms by (rule sorted_filter)
  have t: "\<forall>x \<in> set ?g. ticker x = fst k"
    by (auto simp: group_key_def)
  from s t show ?thesis by (rule same_ticker_sorted_dates)
qed

lemma sorted_first_last:
  fixes g :: "'a row list"
  assumes "sorted (map f g)" and "x \<in> set g"
  shows "f (hd g) \<le> f x \<and> f x \<le> f (last g)"
proof -
  from assms(2) have ne: "g \<noteq> []" by auto
  obtain i where i: "i < length g" "g ! i = x"
    using assms(2) by (auto simp: in_set_conv_nth)
  have "map f g ! 0 \<le> map f g ! i"
    using assms(1) i(1) by (intro sorted_nth_mono) auto
  moreover have "map f g ! i \<le> map f g ! (length g - 1)"
    using assms(1) i(1) by (intro sorted_nth_mono) auto
  ultimately show ?thesis
    using i ne by (simp add: hd_conv_nth last_conv_nth)
qed

text \<open>
  Claim C1 (as amended). When the group of a row \<open>r\<close> (its ticker and calendar month) holds
  this row only, the monthly table has exactly one row for the group; it is labelled with the
  last day of the month, its open is the open of \<open>r\<close> and its close, high, low and volume
  are the close, high, low and volume of \<open>r\<close>.
\<close>

theorem single_row_group:
  assumes "''ticker'' \<in> set (columns df)" and "''date'' \<in> set (columns df)"
    and "set agg_columns \<subseteq> set (columns df)"
    and "filter (\<lambda>x. group_key x = group_key r) (rows df) = [r]"
  shows "\<exists>m. aggregate_to_monthly df = Inr m \<and>
           filter (\<lambda>q. sort_by q = group_key r) (rows m) =
             [mk_row (ticker r) (month_end (date r))
                (open_p r) (high r) (low r) (close r) (volume r)]"
proof -
  let ?g = "filter (\<lambda>x. group_key x = group_key r) (rows df)"
  have "r \<in> set ?g"
    using assms(4) by simp
  then have "group_key r \<in> group_key ` set (rows df)" by auto
  from monthly_row_of_key [OF this]
  have one: "filter (\<lambda>q. sort_by q = group_key r)
       (map (\<lambda>k. agg_group k (filter (\<lambda>r. group_key r = k) (rows df)))
            (sort (remdups (map group_key (rows df)))))
     = [agg_group (group_key r) [r]]"
    using assms(4) by simp
  have val: "agg_group (group_key r) [r] =
      mk_row (ticker r) (month_end (date r)) (open_p r) (high r) (low r) (close r) (volume r)"
    by (simp add: agg_group_def mk_row_def group_key_def)
  show ?thesis
    using one val aggregate_to_monthly_Inr [OF assms(1-3)] by simp
qed

theorem single_row_group_witness:
  "''ticker'' \<in> set (columns single_day) \<and> ''date'' \<in> set (columns single_day) \<and>
   set agg_columns \<subseteq> set (columns single_day) \<and>
   filter (\<lambda>x. group_key x = group_key (mk_row ''AAPL'' (2024, 2, 10) 1 3 0 2 10))
     (rows single_day) = [mk_row ''AAPL'' (2024, 2, 10) 1 3 0 2 10] \<and>
   aggregate_to_monthly single_day =
     Inr \<lparr>columns = [''ticker'', ''date'', ''open'', ''close'', ''high'', ''low'', ''volume''],
          rows = [mk_row ''AAPL'' (2024, 2, 29) 1 3 0 2 10]\<rparr>"
  using single_row_group [of single_day "mk_row ''AAPL'' (2024, 2, 10) 1 3 0 2 10"]
  by (simp add: single_day_def raw_columns_def agg_columns_def aggregate_to_monthly_def
      group_key_def month_end_def days_in_month_def is_leap_def mk_row_def agg_group_def)

text \<open>
  The open of the monthly row is the open field of the single row, not its close: a row
  with open 1 and close 2 yields open 1.
\<close>

theorem single_row_open_counterexample:
  "map group_key (rows single_day) = [(''AAPL'', (2024, 2, 29))] \<and>
   map close (rows single_day) = [2] \<and>
   map open_p (rows (projr (aggregate_to_monthly single_day))) = [1]"
  by (simp add: single_day_def raw_columns_def agg_columns_def aggregate_to_monthly_def
      group_key_def month_end_def days_in_month_def is_leap_def mk_row_def agg_group_def)


text \<open>
  Claim C9 (as amended). When two tables hold the same rows of a group \<open>k\<close>, in any two
  orders, their monthly rows for \<open>k\<close> have the same high, low and volume. The open is the
  open of the first row of the group in the order presented and the close is the close of
  the last one; in a table sorted by (ticker, date), as the loader leaves it, these rows
  carry the earliest and the latest date of the group.
\<close>

theorem group_permutation:
  assumes "aggregate_to_monthly df = Inr m" and "aggregate_to_monthly df' = Inr m'"
    and "mset (filter (\<lambda>r. group_key r = k) (rows df')) =
         mset (filter (\<lambda>r. group_key r = k) (rows df))"
    and "k \<in> group_key ` set (rows df)"
  shows "\<exists>q q'. filter (\<lambda>x. sort_by x = k) (rows m) = [q] \<and>
           filter (\<lambda>x. sort_by x = k) (rows m') = [q'] \<and>
           high q' = high q \<and> low q' = low q \<and> volume q' = volume q \<and>
           open_p q = open_p (hd (filter (\<lambda>r. group_key r = k) (rows df))) \<and>
           close q = close (last (filter (\<lambda>r. group_key r = k) (rows df))) \<and>
           open_p q' = open_p (hd (filter (\<lambda>r. group_key r = k) (rows df'))) \<and>
           close q' = close (last (filter (\<lambda>r. group_key r = k) (rows df'))) \<and>
           (sorted (map sort_by (rows df)) \<longrightarrow>
              (\<forall>x \<in> set (filter (\<lambda>r. group_key r = k) (rows df)).
                 date (hd (filter (\<lambda>r. group_key r = k) (rows df))) \<le> date x \<and>
                 date x \<le> date (last (filter (\<lambda>r. group_key r = k) (rows df)))))"
proof -
  let ?g = "filter (\<lambda>r. group_key r = k) (rows df)"
  let ?g' = "filter (\<lambda>r. group_key r = k) (rows df')"
  have "set ?g' = set ?g"
    using assms(3) by (rule mset_eq_setD)
  with assms(4) have k': "k \<in> group_key ` set (rows df')"
    by auto
  have q: "filter (\<lambda>x. sort_by x = k) (rows m) = [agg_group k ?g]"
    using monthly_row_of_key [OF assms(4)] aggregate_to_monthly_InrD [OF assms(1)] by simp
  have q': "filter (\<lambda>x. sort_by x = k) (rows m') = [agg_group k ?g']"
    using monthly_row_of_key [OF k'] aggregate_to_monthly_InrD [OF assms(2)] by simp
  have chrono: "sorted (map sort_by (rows df)) \<longrightarrow>
      (\<forall>x \<in> set ?g. date (hd ?g) \<le> date x \<and> date x \<le> date (last ?g))"
    using sorted_first_last [OF group_sorted_dates] by blast
  have ends: "open_p (agg_group k ?g) = open_p (hd ?g)" "close (agg_group k ?g) = close (last ?g)"
    "open_p (agg_group k ?g') = open_p (hd ?g')" "close (agg_group k ?g') = close (last ?g')"
    by (simp_all add: agg_group_def)
  show ?thesis
    using q q' agg_group_perm [OF assms(3), of k] ends chrono by simp
qed

theorem group_permutation_witness:
  "aggregate_to_monthly sorted_month =
     Inr \<lparr>columns = [''ticker'', ''date'', ''open'', ''close'', ''high'', ''low'', ''volume''],
          rows = [mk_row ''AAPL'' (2024, 1, 31) 3 9 2 7 60]\<rparr> \<and>
   aggregate_to_monthly unsorted_month =
     Inr \<lparr>columns = [''ticker'', ''date'', ''open'', ''close'', ''high'', ''low'', ''volume''],
          rows = [mk_row ''AAPL'' (2024, 1, 31) 6 9 2 4 60]\<rparr> \<and>
   mset (filter (\<lambda>r. group_key r = (''AAPL'', (2024, 1, 31))) (rows unsorted_month)) =
   mset (filter (\<lambda>r. group_key r = (''AAPL'', (2024, 1, 31))) (rows sorted_month)) \<and>
   (''AAPL'', (2024, 1, 31)) \<in> group_key ` set (rows sorted_month) \<and>
   sorted (map sort_by (rows sorted_month))"
  using group_permutation [where df = sorted_month and df' = unsorted_month
      and k = "(''AAPL'', (2024, 1, 31))"]
  by (simp add: sorted_month_def unsorted_month_def raw_columns_def agg_columns_def
      aggregate_to_monthly_def group_key_def month_end_def days_in_month_def is_leap_def
      mk_row_def agg_group_def sort_by_def)

text \<open>
  The open and the close follow the position in the table, not the dates: with the later
  row of the month presented first, the open is that of the later row (6, not 3) and the
  close that of the earlier one (4, not 7).
\<close>

theorem presented_order_counterexample:
  "rows unsorted_month = [mk_row ''AAPL'' (2024, 1, 20) 6 9 5 7 40,
                          mk_row ''AAPL'' (2024, 1, 5) 3 7 2 4 20] \<and>
   map group_key (rows unsorted_month) = [(''AAPL'', (2024, 1, 31)), (''AAPL'', (2024, 1, 31))] \<and>
   map open_p (rows (projr (aggregate_to_monthly unsorted_month))) = [6] \<and>
   map close (rows (projr (aggregate_to_monthly unsorted_month))) = [4]"
  by (simp add: unsorted_month_def raw_columns_def agg_columns_def
      aggregate_to_monthly_def group_key_def month_end_def days_in_month_def is_leap_def
      mk_row_def agg_group_def)

section \<open>Properties of the indicators\<close>

lemma length_rolling_mean [simp]: "length (rolling_mean K w xs) = length xs"
  by (simp add: rolling_mean_def)

lemma rolling_mean_nth:
  assumes "i < length xs" and "0 < w"
  shows "rolling_mean K w xs ! i =
           (if Suc i < w then None else Some (roll K w (take (Suc i) xs)))"
proof -
  have "length (drop (Suc i - w) (take (Suc i) xs)) = min (Suc i) w"
    using assms by auto
  then show ?thesis
    using assms by (auto simp: rolling_mean_def Let_def)
qed

lemma length_ewm_loop [simp]: "length (ewm_loop update w xs) = length xs"
  by (induction xs arbitrary: w) (simp_all add: Let_def)

lemma length_ewm_mean [simp]: "length (ewm_mean K s xs) = length xs"
  by (simp add: ewm_mean_def split: list.splits)

lemma ewm_loop_nth:
  "j < length xs \<Longrightarrow>
     (w # ewm_loop update w xs) ! Suc j =
       (if (w # ewm_loop update w xs) ! j \<noteq> xs ! j
        then update ((w # ewm_loop update w xs) ! j) (xs ! j)
        else (w # ewm_loop update w xs) ! j)"
proof (induction xs arbitrary: w j)
  case Nil
  then show ?case by simp
next
  case (Cons cur xs)
  show ?case
  proof (cases j)
    case 0
    then show ?thesis by (simp add: Let_def)
  next
    case (Suc j')
    then show ?thesis
      using Cons.IH [of j' "if w \<noteq> cur then update w cur else w"] Cons.prems
      by (simp add: Let_def)
  qed
qed

lemma length_group_transform [simp]: "length (group_transform f keys vals) = length keys"
  by (simp add: group_transform_def)

lemma length_transform [simp]: "length (transform f rs) = length rs"
  by (simp add: transform_def)

lemma group_values_rows:
  "group_values (map ticker rs) (map close rs) t = map close (filter (\<lambda>r. ticker r = t) rs)"
  by (induction rs) (simp_all add: group_values_def)

lemma length_group_values:
  "length keys = length vals \<Longrightarrow>
     length (group_values keys vals t) = length (filter (\<lambda>k. k = t) keys)"
  unfolding group_values_def
  by (induction keys vals rule: list_induct2) simp_all

lemma ranked_scatter:
  "group_values keys
       (map (\<lambda>i. F (keys ! i) (length (filter (\<lambda>k. k = keys ! i) (take i keys))))
            [0..<length keys]) t
     = map (F t) [0..<length (filter (\<lambda>k. k = t) keys)]"
proof (induction keys rule: rev_induct)
  case Nil
  then show ?case by (simp add: group_values_def)
next
  case (snoc k keys)
  let ?col = "\<lambda>ks. map (\<lambda>i. F (ks ! i) (length (filter (\<lambda>k. k = ks ! i) (take i ks))))
                        [0..<length ks]"
  have front: "map (\<lambda>i. F ((keys @ [k]) ! i)
                    (length (filter (\<lambda>k'. k' = (keys @ [k]) ! i) (take i (keys @ [k])))))
                 [0..<length keys] = ?col keys"
    by (rule map_cong) (simp_all add: nth_append)
  have col: "?col (keys @ [k]) = ?col keys @ [F k (length (filter (\<lambda>k'. k' = k) keys))]"
    using front by simp
  have "group_values (keys @ [k]) (?col (keys @ [k])) t =
        group_values keys (?col keys) t @
          (if k = t then [F k (length (filter (\<lambda>k'. k' = k) keys))] else [])"
    unfolding col by (simp add: group_values_def)
  then show ?case
    using snoc.IH by auto
qed

lemma group_transform_group:
  assumes "length keys = length vals"
    and "\<And>xs. length (f xs) = length xs"
  shows "group_values keys (group_transform f keys vals) t = f (group_values keys vals t)"
proof -
  have "group_values keys (group_transform f keys vals) t =
        map (\<lambda>j. f (group_values keys vals t) ! j) [0..<length (filter (\<lambda>k. k = t) keys)]"
    unfolding group_transform_def
    by (rule ranked_scatter [where F = "\<lambda>t j. f (group_values keys vals t) ! j"])
  also have "length (filter (\<lambda>k. k = t) keys) = length (f (group_values keys vals t))"
    using assms by (simp add: length_group_values)
  finally show ?thesis
    by (simp add: map_nth)
qed

lemma filter_ticker_map2:
  assumes "\<And>v r. ticker (upd v r) = ticker r"
  shows "filter (\<lambda>r. ticker r = t) (map2 (\<lambda>r v. upd v r) rs col) =
         map2 (\<lambda>r v. upd v r) (filter (\<lambda>r. ticker r = t) rs)
              (group_values (map ticker rs) col t)"
proof (induction rs arbitrary: col)
  case Nil
  then show ?case by (simp add: group_values_def)
next
  case (Cons r rs)
  then show ?case
    by (cases col) (simp_all add: group_values_def assms)
qed


lemma map2_keeps:
  assumes "\<And>v r. p (upd v r) = p r" and "length rs \<le> length col"
  shows "map p (map2 (\<lambda>r v. upd v r) rs col) = map p rs"
  using assms(2)
proof (induction rs arbitrary: col)
  case Nil
  then show ?case by simp
next
  case (Cons r rs)
  then show ?case by (cases col) (simp_all add: assms(1))
qed

lemma transform_cong:
  "map ticker rs' = map ticker rs \<Longrightarrow> map close rs' = map close rs \<Longrightarrow>
     transform f rs' = transform f rs"
  by (simp add: transform_def)

lemma transform_map2:
  fixes upd :: "'b \<Rightarrow> 'd row \<Rightarrow> 'd row"
  assumes "\<And>v r. ticker (upd v r) = ticker r" and "\<And>v r. close (upd v r) = close r"
    and "length rs \<le> length col"
  shows "transform f (map2 (\<lambda>r v. upd v r) rs col) = transform f rs"
proof (rule transform_cong)
  show "map ticker (map2 (\<lambda>r v. upd v r) rs col) = map ticker rs"
    using assms(1,3) by (rule map2_keeps)
  show "map close (map2 (\<lambda>r v. upd v r) rs col) = map close rs"
    using assms(2,3) by (rule map2_keeps)
qed

lemma group_values_transform:
  assumes "\<And>xs. length (f xs) = length xs"
  shows "group_values (map ticker rs) (transform f rs) t =
           f (map close (filter (\<lambda>r. ticker r = t) rs))"
  using group_transform_group [of "map ticker rs" "map close rs" f t] assms
  by (simp add: transform_def group_values_rows)

lemma filter_with_columns:
  assumes "length c1 = length rs" "length c2 = length rs" "length c3 = length rs"
  shows "filter (\<lambda>r. ticker r = t) (with_columns rs c1 c2 c3 c4) =
         with_columns (filter (\<lambda>r. ticker r = t) rs)
           (group_values (map ticker rs) c1 t) (group_values (map ticker rs) c2 t)
           (group_values (map ticker rs) c3 t) (group_values (map ticker rs) c4 t)"
proof -
  let ?r1 = "map2 (\<lambda>r v. r\<lparr>SMA_10 := v\<rparr>) rs c1"
  let ?r2 = "map2 (\<lambda>r v. r\<lparr>SMA_20 := v\<rparr>) ?r1 c2"
  let ?r3 = "map2 (\<lambda>r v. r\<lparr>EMA_10 := v\<rparr>) ?r2 c3"
  have t1: "map ticker ?r1 = map ticker rs"
    using assms by (intro map2_keeps [where upd = "\<lambda>v r. r\<lparr>SMA_10 := v\<rparr>"]) simp_all
  have t2: "map ticker ?r2 = map ticker rs"
    using assms t1 map2_keeps [where upd = "\<lambda>v r. r\<lparr>SMA_20 := v\<rparr>" and p = ticker and rs = ?r1 and col = c2]
    by simp
  have t3: "map ticker ?r3 = map ticker rs"
    using assms t2 map2_keeps [where upd = "\<lambda>v r. r\<lparr>EMA_10 := v\<rparr>" and p = ticker and rs = ?r2 and col = c3]
    by simp
  have f1: "filter (\<lambda>r. ticker r = t) ?r1 =
      map2 (\<lambda>r v. r\<lparr>SMA_10 := v\<rparr>) (filter (\<lambda>r. ticker r = t) rs) (group_values (map ticker rs) c1 t)"
    by (rule filter_ticker_map2 [where upd = "\<lambda>v r. r\<lparr>SMA_10 := v\<rparr>"]) simp
  have f2: "filter (\<lambda>r. ticker r = t) ?r2 =
      map2 (\<lambda>r v. r\<lparr>SMA_20 := v\<rparr>) (filter (\<lambda>r. ticker r = t) ?r1) (group_values (map ticker rs) c2 t)"
    using filter_ticker_map2 [where upd = "\<lambda>v r. r\<lparr>SMA_20 := v\<rparr>" and rs = ?r1 and col = c2 and t = t]
    by (simp only: t1) simp
  have f3: "filter (\<lambda>r. ticker r = t) ?r3 =
      map2 (\<lambda>r v. r\<lparr>EMA_10 := v\<rparr>) (filter (\<lambda>r. ticker r = t) ?r2) (group_values (map ticker rs) c3 t)"
    using filter_ticker_map2 [where upd = "\<lambda>v r. r\<lparr>EMA_10 := v\<rparr>" and rs = ?r2 and col = c3 and t = t]
    by (simp only: t2) simp
  have f4: "filter (\<lambda>r. ticker r = t) (map2 (\<lambda>r v. r\<lparr>EMA_20 := v\<rparr>) ?r3 c4) =
      map2 (\<lambda>r v. r\<lparr>EMA_20 := v\<rparr>) (filter (\<lambda>r. ticker r = t) ?r3) (group_values (map ticker rs) c4 t)"
    using filter_ticker_map2 [where upd = "\<lambda>v r. r\<lparr>EMA_20 := v\<rparr>" and rs = ?r3 and col = c4 and t = t]
    by (simp only: t3) simp
  show ?thesis
    unfolding with_columns_def by (simp only: f4 f3 f2 f1)
qed

lemma filter_indicators:
  "filter (\<lambda>r. ticker r = t)
     (with_columns rs (transform (rolling_mean K 10) rs) (transform (rolling_mean K 20) rs)
        (transform (ewm_mean K 10) rs) (transform (ewm_mean K 20) rs))
   = series_indicators K (filter (\<lambda>r. ticker r = t) rs)"
  by (simp add: filter_with_columns group_values_transform series_indicators_def)


lemma assign_column_last:
  "assign_column (length h) name upd col (h @ [f]) = h @ [setitem name upd col f]"
  by (simp add: assign_column_def)

lemma add_technical_indicators_st_eq:
  "add_technical_indicators_st K a h =
     (if ''ticker'' \<notin> set (columns (h ! a)) then Inl (SchemaError [''ticker''])
      else if ''date'' \<notin> set (columns (h ! a)) then Inl (SchemaError [''date''])
      else if ''close'' \<notin> set (columns (h ! a)) then Inl (SchemaError [''close''])
      else Inr (length h, h @ [indicator_frame K (h ! a)]))"
proof -
  let ?rs = "sort_key sort_by (rows (h ! a))"
  let ?c1 = "transform (rolling_mean K 10) ?rs"
  let ?r1 = "map2 (\<lambda>r v. r\<lparr>SMA_10 := v\<rparr>) ?rs ?c1"
  let ?c2 = "transform (rolling_mean K 20) ?rs"
  let ?r2 = "map2 (\<lambda>r v. r\<lparr>SMA_20 := v\<rparr>) ?r1 ?c2"
  let ?c3 = "transform (ewm_mean K 10) ?rs"
  let ?r3 = "map2 (\<lambda>r v. r\<lparr>EMA_10 := v\<rparr>) ?r2 ?c3"
  have t1: "\<And>f. transform f ?r1 = transform f ?rs"
    by (rule transform_map2) simp_all
  have t2: "\<And>f. transform f ?r2 = transform f ?rs"
    using transform_map2 [where upd = "\<lambda>v r. r\<lparr>SMA_20 := v\<rparr>" and rs = ?r1 and col = ?c2]
    by (simp add: t1)
  have t3: "\<And>f. transform f ?r3 = transform f ?rs"
    using transform_map2 [where upd = "\<lambda>v r. r\<lparr>EMA_10 := v\<rparr>" and rs = ?r2 and col = ?c3]
    by (simp add: t2)
  show ?thesis
    by (simp add: add_technical_indicators_st_def sort_values_def alloc_def
        assign_column_last setitem_def t1 t2 t3 indicator_frame_def with_columns_def Let_def)
qed

lemma add_technical_indicators_eq:
  "add_technical_indicators K df =
     (if ''ticker'' \<notin> set (columns df) then Inl (SchemaError [''ticker''])
      else if ''date'' \<notin> set (columns df) then Inl (SchemaError [''date''])
      else if ''close'' \<notin> set (columns df) then Inl (SchemaError [''close''])
      else Inr (indicator_frame K df))"
  by (simp add: add_technical_indicators_def add_technical_indicators_st_eq)

lemma map2_sets:
  assumes "\<And>v r. p (upd v r) = v" and "length col \<le> length rs"
  shows "map p (map2 (\<lambda>r v. upd v r) rs col) = col"
  using assms(2)
proof (induction rs arbitrary: col)
  case Nil
  then show ?case by simp
next
  case (Cons r rs)
  then show ?case by (cases col) (simp_all add: assms(1))
qed

lemma length_with_columns:
  "length c1 = length rs \<Longrightarrow> length c2 = length rs \<Longrightarrow> length c3 = length rs \<Longrightarrow>
     length c4 = length rs \<Longrightarrow> length (with_columns rs c1 c2 c3 c4) = length rs"
  by (simp add: with_columns_def)

lemma with_columns_nth:
  assumes "length c1 = length rs" "length c2 = length rs" "length c3 = length rs"
    "length c4 = length rs" "i < length rs"
  shows "with_columns rs c1 c2 c3 c4 ! i =
           (rs ! i)\<lparr>SMA_10 := c1 ! i, SMA_20 := c2 ! i, EMA_10 := c3 ! i, EMA_20 := c4 ! i\<rparr>"
  using assms by (simp add: with_columns_def)

lemma length_series_indicators [simp]: "length (series_indicators K g) = length g"
  by (simp add: series_indicators_def length_with_columns)

lemma series_indicators_nth:
  "i < length g \<Longrightarrow>
     series_indicators K g ! i =
       (g ! i)\<lparr>SMA_10 := rolling_mean K 10 (map close g) ! i,
               SMA_20 := rolling_mean K 20 (map close g) ! i,
               EMA_10 := ewm_mean K 10 (map close g) ! i,
               EMA_20 := ewm_mean K 20 (map close g) ! i\<rparr>"
  by (simp add: series_indicators_def with_columns_nth)

lemma series_indicators_close: "map close (series_indicators K g) = map close g"
  by (rule nth_equalityI) (simp_all add: series_indicators_nth)

lemma series_indicators_sort_by: "map sort_by (series_indicators K g) = map sort_by g"
  by (rule nth_equalityI) (simp_all add: series_indicators_nth sort_by_def)

lemma ticker_rows_indicator_frame:
  "filter (\<lambda>r. ticker r = t) (rows (indicator_frame K df)) =
     series_indicators K (sort_key sort_by (filter (\<lambda>r. ticker r = t) (rows df)))"
  by (simp add: indicator_frame_def Let_def filter_indicators filter_sort)

lemma length_rows_indicator_frame: "length (rows (indicator_frame K df)) = length (rows df)"
  by (simp add: indicator_frame_def Let_def length_with_columns)

lemma add_technical_indicators_InrD:
  "add_technical_indicators K df = Inr out \<Longrightarrow> out = indicator_frame K df"
  by (simp add: add_technical_indicators_eq split: if_splits)

lemma series_indicators_ticker: "map ticker (series_indicators K g) = map ticker g"
  by (rule nth_equalityI) (simp_all add: series_indicators_nth)

lemma ticker_series_chronological:
  "sorted (map date (series_indicators K (sort_key sort_by (filter (\<lambda>r. ticker r = t) rs))))"
proof -
  let ?g = "sort_key sort_by (filter (\<lambda>r. ticker r = t) rs)"
  have "sorted (map sort_by (series_indicators K ?g))"
    by (simp add: series_indicators_sort_by)
  moreover have "\<forall>x \<in> set (series_indicators K ?g). ticker x = t"
  proof
    fix x assume "x \<in> set (series_indicators K ?g)"
    then have "ticker x \<in> set (map ticker (series_indicators K ?g))"
      by simp
    then have "ticker x \<in> set (map ticker ?g)"
      by (simp only: series_indicators_ticker)
    then show "ticker x = t"
      by auto
  qed
  ultimately show ?thesis
    by (rule same_ticker_sorted_dates)
qed

text \<open>
  Claim C7. Two monthly tables with the same rows of ticker \<open>t\<close> (whatever their other rows)
  give the same enriched rows for \<open>t\<close>, so the same SMA_10, SMA_20, EMA_10 and EMA_20 on
  each of them.
\<close>

theorem ticker_isolation:
  assumes "filter (\<lambda>r. ticker r = t) (rows df1) = filter (\<lambda>r. ticker r = t) (rows df2)"
    and "add_technical_indicators K df1 = Inr out1"
    and "add_technical_indicators K df2 = Inr out2"
  shows "filter (\<lambda>r. ticker r = t) (rows out1) = filter (\<lambda>r. ticker r = t) (rows out2)"
proof -
  have "out1 = indicator_frame K df1" "out2 = indicator_frame K df2"
    using assms(2,3) by (simp_all add: add_technical_indicators_InrD)
  then show ?thesis
    using assms(1) by (simp add: ticker_rows_indicator_frame)
qed

text \<open>
  Claim C10. For a table with the ticker, date and close columns (every monthly table has
  them) the call succeeds and leaves every frame of the caller's store as it was, the
  argument included: the result is a frame at a fresh address.
\<close>

theorem caller_table_unchanged:
  assumes "a < length h"
    and "''ticker'' \<in> set (columns (h ! a))" and "''date'' \<in> set (columns (h ! a))"
    and "''close'' \<in> set (columns (h ! a))"
  shows "\<exists>d h'. add_technical_indicators_st K a h = Inr (d, h') \<and>
           h' ! a = h ! a \<and> take (length h) h' = h \<and> d = length h \<and>
           length h' = Suc (length h) \<and> h' ! d = indicator_frame K (h ! a)"
  using assms
  by (simp add: add_technical_indicators_st_eq nth_append)

lemma monthly_13_ok:
  "add_technical_indicators exact_numerics monthly_13 = Inr (indicator_frame exact_numerics monthly_13)"
  by (simp add: add_technical_indicators_eq monthly_13_def)

lemma monthly_13_other_ok:
  "add_technical_indicators exact_numerics monthly_13_other = Inr (indicator_frame exact_numerics monthly_13_other)"
  by (simp add: add_technical_indicators_eq monthly_13_other_def)

theorem ticker_isolation_witness:
  "filter (\<lambda>r. ticker r = ''AAA'') (rows monthly_13) =
     filter (\<lambda>r. ticker r = ''AAA'') (rows monthly_13_other) \<and>
   rows monthly_13 \<noteq> rows monthly_13_other \<and>
   add_technical_indicators exact_numerics monthly_13 = Inr (indicator_frame exact_numerics monthly_13) \<and>
   add_technical_indicators exact_numerics monthly_13_other = Inr (indicator_frame exact_numerics monthly_13_other) \<and>
   filter (\<lambda>r. ticker r = ''AAA'') (rows (indicator_frame exact_numerics monthly_13)) =
     filter (\<lambda>r. ticker r = ''AAA'') (rows (indicator_frame exact_numerics monthly_13_other))"
proof -
  have same: "filter (\<lambda>r. ticker r = ''AAA'') (rows monthly_13) =
     filter (\<lambda>r. ticker r = ''AAA'') (rows monthly_13_other)"
    by (simp add: monthly_13_def monthly_13_other_def mk_row_def)
  have diff: "rows monthly_13 \<noteq> rows monthly_13_other"
    by (simp add: monthly_13_def monthly_13_other_def mk_row_def)
  show ?thesis
    using ticker_isolation [OF same monthly_13_ok monthly_13_other_ok] same diff
      monthly_13_ok monthly_13_other_ok by simp
qed

theorem caller_table_unchanged_witness:
  "(0::nat) < length [monthly_13] \<and>
   ''ticker'' \<in> set (columns ([monthly_13] ! 0)) \<and>
   ''date'' \<in> set (columns ([monthly_13] ! 0)) \<and>
   ''close'' \<in> set (columns ([monthly_13] ! 0)) \<and>
   add_technical_indicators_st exact_numerics 0 [monthly_13] =
     Inr (1, [monthly_13, indicator_frame exact_numerics monthly_13])"
proof -
  have c: "''ticker'' \<in> set (columns ([monthly_13] ! 0))"
    "''date'' \<in> set (columns ([monthly_13] ! 0))"
    "''close'' \<in> set (columns ([monthly_13] ! 0))"
    by (simp_all add: monthly_13_def)
  have r: "add_technical_indicators_st exact_numerics 0 [monthly_13] =
     Inr (1, [monthly_13, indicator_frame exact_numerics monthly_13])"
    by (simp add: add_technical_indicators_st_eq monthly_13_def)
  show ?thesis
    using caller_table_unchanged [OF _ c] r c by simp
qed

section \<open>Properties of the writer and of the whole run\<close>

lemma unique_props [simp]:
  "distinct (unique xs)" "set (unique xs) = set xs"
  by (simp_all add: unique_def)

lemma path_join_result_inj:
  "path_join folder (''result_'' @ s) = path_join folder (''result_'' @ s') \<Longrightarrow> s = s'"
  by (simp add: path_join_def split: if_splits)

lemma file_path_inj:
  "inj (\<lambda>s. path_join folder (''result_'' @ s @ ''.csv''))"
proof (rule injI)
  fix s s' :: string
  assume "path_join folder (''result_'' @ s @ ''.csv'') = path_join folder (''result_'' @ s' @ ''.csv'')"
  then have "s @ ''.csv'' = s' @ ''.csv''"
    by (rule path_join_result_inj)
  then show "s = s'" by simp
qed

lemma indicator_sum_absent:
  "x \<notin> set ks \<Longrightarrow> sum_list (map (\<lambda>k. if x = k then 1 else 0) ks) = (0::nat)"
  by (induction ks) auto

lemma indicator_sum_present:
  "distinct ks \<Longrightarrow> x \<in> set ks \<Longrightarrow>
     sum_list (map (\<lambda>k. if x = k then 1 else 0) ks) = (1::nat)"
  by (induction ks) (auto simp: indicator_sum_absent)

lemma sum_group_lengths:
  "distinct ks \<Longrightarrow> set (map f rs) \<subseteq> set ks \<Longrightarrow>
     sum_list (map (\<lambda>k. length (filter (\<lambda>r. f r = k) rs)) ks) = length rs"
proof (induction rs)
  case Nil
  then show ?case by simp
next
  case (Cons r rs)
  have one: "sum_list (map (\<lambda>k. if f r = k then 1 else 0) ks) = (1::nat)"
    using Cons.prems by (intro indicator_sum_present) auto
  have "sum_list (map (\<lambda>k. length (filter (\<lambda>r. f r = k) (r # rs))) ks) =
        sum_list (map (\<lambda>k. (if f r = k then 1 else 0) + length (filter (\<lambda>r. f r = k) rs)) ks)"
    by (intro arg_cong [where f = sum_list] map_cong) auto
  also have "\<dots> = sum_list (map (\<lambda>k. if f r = k then 1 else 0) ks) +
                  sum_list (map (\<lambda>k. length (filter (\<lambda>r. f r = k) rs)) ks)"
    by (simp add: sum_list_addf)
  finally show ?case
    using one Cons by simp
qed

lemma month_end_idem [simp]: "month_end (month_end d) = month_end d"
  by (simp add: month_end_def split: prod.splits)

lemma group_key_agg_group:
  "group_key (agg_group (group_key r) g) = group_key r"
  by (simp add: group_key_def agg_group_def)

lemma monthly_keys:
  assumes "aggregate_to_monthly df = Inr m"
  shows "map group_key (rows m) = sort (remdups (map group_key (rows df)))"
proof -
  let ?ks = "sort (remdups (map group_key (rows df)))"
  have "map group_key (rows m) =
        map (\<lambda>k. group_key (agg_group k (filter (\<lambda>r. group_key r = k) (rows df)))) ?ks"
    using aggregate_to_monthly_InrD [OF assms] by (simp add: comp_def)
  also have "\<dots> = map (\<lambda>k. k) ?ks"
  proof (rule map_cong [OF refl])
    fix k assume "k \<in> set ?ks"
    then obtain r where "k = group_key r" by auto
    then show "group_key (agg_group k (filter (\<lambda>r. group_key r = k) (rows df))) = k"
      by (simp add: group_key_agg_group)
  qed
  finally show ?thesis by simp
qed

lemma group_key_series_indicators:
  "map group_key (series_indicators K g) = map group_key g"
  by (rule nth_equalityI) (simp_all add: series_indicators_nth group_key_def)

lemma indicator_frame_keys:
  "mset (map group_key (rows (indicator_frame K df))) = mset (map group_key (rows df))"
proof -
  let ?rs = "sort_key sort_by (rows df)"
  have "rows (indicator_frame K df) =
        with_columns ?rs (transform (rolling_mean K 10) ?rs) (transform (rolling_mean K 20) ?rs)
          (transform (ewm_mean K 10) ?rs) (transform (ewm_mean K 20) ?rs)"
    by (simp add: indicator_frame_def Let_def)
  moreover have "map group_key (with_columns ?rs (transform (rolling_mean K 10) ?rs)
        (transform (rolling_mean K 20) ?rs) (transform (ewm_mean K 10) ?rs)
        (transform (ewm_mean K 20) ?rs)) = map group_key ?rs"
    by (rule nth_equalityI) (simp_all add: length_with_columns with_columns_nth group_key_def)
  ultimately have "map group_key (rows (indicator_frame K df)) = map group_key ?rs"
    by simp
  then have "mset (map group_key (rows (indicator_frame K df))) = mset (map group_key ?rs)"
    by (simp only:)
  also have "\<dots> = mset (map group_key (rows df))"
    by simp
  finally show ?thesis .
qed

lemma pipeline_one_row_per_month:
  assumes "aggregate_to_monthly raw = Inr m" and "add_technical_indicators K m = Inr df"
  shows "distinct (map group_key (rows df))"
    and "set (map group_key (rows df)) = group_key ` set (rows raw)"
proof -
  have df: "df = indicator_frame K m"
    using assms(2) by (rule add_technical_indicators_InrD)
  have ms: "mset (map group_key (rows df)) = mset (sort (remdups (map group_key (rows raw))))"
    unfolding df by (simp only: indicator_frame_keys monthly_keys [OF assms(1)])
  have "distinct (sort (remdups (map group_key (rows raw))))"
    by simp
  then show "distinct (map group_key (rows df))"
    using ms by (metis mset_eq_imp_distinct_iff)
  show "set (map group_key (rows df)) = group_key ` set (rows raw)"
    using mset_eq_setD [OF ms] by simp
qed

lemma map_of_inj_keys:
  "inj p \<Longrightarrow> s \<in> set ks \<Longrightarrow> map_of (map (\<lambda>s. (p s, c s)) ks) (p s) = Some (c s)"
  by (induction ks) (auto simp: inj_eq)

lemma write_tickers_all:
  "\<forall>s \<in> set ks. writable (path_join folder (''result_'' @ s @ ''.csv'')) \<Longrightarrow>
     write_tickers writable df folder ks =
       (map (\<lambda>s. (path_join folder (''result_'' @ s @ ''.csv''),
                   to_csv \<lparr>columns = columns df,
                           rows = filter (\<lambda>r. ticker r = s) (rows df)\<rparr>)) ks, None)"
  by (induction ks) (simp_all add: Let_def)

lemma write_tickers_stop:
  "\<forall>t \<in> set pre. writable (path_join folder (''result_'' @ t @ ''.csv'')) \<Longrightarrow>
   \<not> writable (path_join folder (''result_'' @ s @ ''.csv'')) \<Longrightarrow>
     write_tickers writable df folder (pre @ s # post) =
       (map (\<lambda>s. (path_join folder (''result_'' @ s @ ''.csv''),
                   to_csv \<lparr>columns = columns df,
                           rows = filter (\<lambda>r. ticker r = s) (rows df)\<rparr>)) pre,
        Some (IOError (path_join folder (''result_'' @ s @ ''.csv''))))"
  by (induction pre) (simp_all add: Let_def)

lemma write_tickers_files:
  "(p, f) \<in> set (fst (write_tickers writable df folder ks)) \<Longrightarrow> header f = columns df \<and>
     (\<forall>line \<in> set (body f). length line = length (columns df))"
proof (induction ks)
  case Nil
  then show ?case by simp
next
  case (Cons s ks)
  then show ?case
    by (auto simp: Let_def to_csv_def split: if_splits prod.splits)
qed

lemma explicit_lines:
  assumes "columns df =
     [''ticker'', ''date'', ''open'', ''close'', ''high'', ''low'', ''volume'',
      ''SMA_10'', ''SMA_20'', ''EMA_10'', ''EMA_20'']"
  shows "to_csv \<lparr>columns = columns df, rows = filter (\<lambda>r. ticker r = s) (rows df)\<rparr> =
     \<lparr>header = [''ticker'', ''date'', ''open'', ''close'', ''high'', ''low'', ''volume'',
                ''SMA_10'', ''SMA_20'', ''EMA_10'', ''EMA_20''],
      body = map (\<lambda>r. [CStr s, CDate (date r), CNum (open_p r), CNum (close r),
                        CNum (high r), CNum (low r), CInt (volume r),
                        (case SMA_10 r of None \<Rightarrow> CNull | Some v \<Rightarrow> CNum v),
                        (case SMA_20 r of None \<Rightarrow> CNull | Some v \<Rightarrow> CNum v),
                        (case EMA_10 r of None \<Rightarrow> CNull | Some v \<Rightarrow> CNum v),
                        (case EMA_20 r of None \<Rightarrow> CNull | Some v \<Rightarrow> CNum v)])
                  (filter (\<lambda>r. ticker r = s) (rows df))\<rparr>"
  unfolding to_csv_def assms
  by (simp add: cell_of_def num_cell_def cong: map_cong)

text \<open>
  Claim C8 (as amended). For every enriched table with a ticker column: when the path
  \<open>result_<TICKER>.csv\<close> under the output folder can be written for every ticker of the
  table, the writer raises nothing and writes one file per distinct ticker, in the order of
  first appearance, at distinct paths, the symbol unchanged; the file of a ticker holds
  exactly the rows of that ticker, in the order of the table (for the eleven columns of the
  pipeline: its symbol, date, open, close, high, low, volume and the four indicators, a
  missing one as an empty cell); the row counts of the files add up to the number of rows of
  the table, which is the number of distinct (ticker, month) pairs when the table has one
  row per pair, as the table that the pipeline builds from the daily rows has. At the first
  ticker whose path cannot be written the writer raises \<open>IOError\<close> and stops: only the files
  of the tickers before it are written.
\<close>

theorem one_file_per_ticker:
  assumes "''ticker'' \<in> set (columns df)"
  shows "((\<forall>s \<in> ticker ` set (rows df).
            writable (path_join folder (''result_'' @ s @ ''.csv''))) \<longrightarrow>
     (\<exists>files.
       save_by_ticker writable df folder = (files, None) \<and>
       map fst files = map (\<lambda>s. path_join folder (''result_'' @ s @ ''.csv''))
                           (unique (map ticker (rows df))) \<and>
       distinct (unique (map ticker (rows df))) \<and>
       set (unique (map ticker (rows df))) = ticker ` set (rows df) \<and>
       distinct (map fst files) \<and>
       (\<forall>s \<in> ticker ` set (rows df).
          map_of files (path_join folder (''result_'' @ s @ ''.csv'')) =
            Some \<lparr>header = columns df,
                  body = map (\<lambda>r. map (\<lambda>c. cell_of c r) (columns df))
                           (filter (\<lambda>r. ticker r = s) (rows df))\<rparr>) \<and>
       (columns df =
          [''ticker'', ''date'', ''open'', ''close'', ''high'', ''low'', ''volume'',
           ''SMA_10'', ''SMA_20'', ''EMA_10'', ''EMA_20''] \<longrightarrow>
        (\<forall>s \<in> ticker ` set (rows df).
           map_of files (path_join folder (''result_'' @ s @ ''.csv'')) =
             Some \<lparr>header =
                     [''ticker'', ''date'', ''open'', ''close'', ''high'', ''low'', ''volume'',
                      ''SMA_10'', ''SMA_20'', ''EMA_10'', ''EMA_20''],
                   body = map (\<lambda>r. [CStr s, CDate (date r), CNum (open_p r), CNum (close r),
                                     CNum (high r), CNum (low r), CInt (volume r),
                                     (case SMA_10 r of None \<Rightarrow> CNull | Some v \<Rightarrow> CNum v),
                                     (case SMA_20 r of None \<Rightarrow> CNull | Some v \<Rightarrow> CNum v),
                                     (case EMA_10 r of None \<Rightarrow> CNull | Some v \<Rightarrow> CNum v),
                                     (case EMA_20 r of None \<Rightarrow> CNull | Some v \<Rightarrow> CNum v)])
                               (filter (\<lambda>r. ticker r = s) (rows df))\<rparr>)) \<and>
       sum_list (map (\<lambda>(p, f). length (body f)) files) = length (rows df) \<and>
       (distinct (map group_key (rows df)) \<longrightarrow>
          sum_list (map (\<lambda>(p, f). length (body f)) files) = card (group_key ` set (rows df))) \<and>
       (\<forall>K raw m. aggregate_to_monthly raw = Inr m \<and> add_technical_indicators K m = Inr df \<longrightarrow>
          sum_list (map (\<lambda>(p, f). length (body f)) files) =
            card (group_key ` set (rows raw))))) \<and>
   (\<forall>pre s post.
      unique (map ticker (rows df)) = pre @ s # post \<and>
      (\<forall>t \<in> set pre. writable (path_join folder (''result_'' @ t @ ''.csv''))) \<and>
      \<not> writable (path_join folder (''result_'' @ s @ ''.csv'')) \<longrightarrow>
      save_by_ticker writable df folder =
        (map (\<lambda>t. (path_join folder (''result_'' @ t @ ''.csv''),
                    \<lparr>header = columns df,
                     body = map (\<lambda>r. map (\<lambda>c. cell_of c r) (columns df))
                              (filter (\<lambda>r. ticker r = t) (rows df))\<rparr>)) pre,
         Some (IOError (path_join folder (''result_'' @ s @ ''.csv'')))))"
proof (intro conjI impI allI)
  assume ok: "\<forall>s \<in> ticker ` set (rows df).
      writable (path_join folder (''result_'' @ s @ ''.csv''))"
  let ?ks = "unique (map ticker (rows df))"
  let ?path = "\<lambda>s. path_join folder (''result_'' @ s @ ''.csv'')"
  let ?content = "\<lambda>s. to_csv \<lparr>columns = columns df,
                                 rows = filter (\<lambda>r. ticker r = s) (rows df)\<rparr>"
  let ?files = "map (\<lambda>s. (?path s, ?content s)) ?ks"
  let ?total = "\<lambda>files :: written. sum_list (map (\<lambda>(p, f). length (body f)) files)"
  have "\<forall>s \<in> set ?ks. writable (?path s)"
    using ok by simp
  then have run: "save_by_ticker writable df folder = (?files, None)"
    using assms by (simp add: save_by_ticker_def write_tickers_all)
  have names: "map fst ?files = map ?path ?ks"
    by (simp add: comp_def)
  have d1: "distinct ?ks" and d2: "set ?ks = ticker ` set (rows df)"
    by simp_all
  have "inj_on ?path (set ?ks)"
    using file_path_inj [of folder] by (rule inj_on_subset) simp
  with d1 have "distinct (map ?path ?ks)"
    by (simp only: distinct_map)
  then have dist: "distinct (map fst ?files)"
    by (simp only: names)
  have look: "map_of ?files (?path s) = Some (?content s)" if "s \<in> ticker ` set (rows df)" for s
  proof -
    from that have "s \<in> set ?ks" by simp
    with file_path_inj [of folder] show ?thesis
      by (rule map_of_inj_keys)
  qed
  have look1: "\<forall>s \<in> ticker ` set (rows df). map_of ?files (?path s) =
      Some \<lparr>header = columns df,
            body = map (\<lambda>r. map (\<lambda>c. cell_of c r) (columns df))
                     (filter (\<lambda>r. ticker r = s) (rows df))\<rparr>"
    using look by (simp add: to_csv_def)
  have look2: "columns df =
          [''ticker'', ''date'', ''open'', ''close'', ''high'', ''low'', ''volume'',
           ''SMA_10'', ''SMA_20'', ''EMA_10'', ''EMA_20''] \<longrightarrow>
        (\<forall>s \<in> ticker ` set (rows df).
           map_of ?files (?path s) =
             Some \<lparr>header =
                     [''ticker'', ''date'', ''open'', ''close'', ''high'', ''low'', ''volume'',
                      ''SMA_10'', ''SMA_20'', ''EMA_10'', ''EMA_20''],
                   body = map (\<lambda>r. [CStr s, CDate (date r), CNum (open_p r), CNum (close r),
                                     CNum (high r), CNum (low r), CInt (volume r),
                                     (case SMA_10 r of None \<Rightarrow> CNull | Some v \<Rightarrow> CNum v),
                                     (case SMA_20 r of None \<Rightarrow> CNull | Some v \<Rightarrow> CNum v),
                                     (case EMA_10 r of None \<Rightarrow> CNull | Some v \<Rightarrow> CNum v),
                                     (case EMA_20 r of None \<Rightarrow> CNull | Some v \<Rightarrow> CNum v)])
                               (filter (\<lambda>r. ticker r = s) (rows df))\<rparr>)"
  proof (intro impI ballI)
    fix s
    assume c: "columns df =
          [''ticker'', ''date'', ''open'', ''close'', ''high'', ''low'', ''volume'',
           ''SMA_10'', ''SMA_20'', ''EMA_10'', ''EMA_20'']"
      and s: "s \<in> ticker ` set (rows df)"
    show "map_of ?files (?path s) =
             Some \<lparr>header =
                     [''ticker'', ''date'', ''open'', ''close'', ''high'', ''low'', ''volume'',
                      ''SMA_10'', ''SMA_20'', ''EMA_10'', ''EMA_20''],
                   body = map (\<lambda>r. [CStr s, CDate (date r), CNum (open_p r), CNum (close r),
                                     CNum (high r), CNum (low r), CInt (volume r),
                                     (case SMA_10 r of None \<Rightarrow> CNull | Some v \<Rightarrow> CNum v),
                                     (case SMA_20 r of None \<Rightarrow> CNull | Some v \<Rightarrow> CNum v),
                                     (case EMA_10 r of None \<Rightarrow> CNull | Some v \<Rightarrow> CNum v),
                                     (case EMA_20 r of None \<Rightarrow> CNull | Some v \<Rightarrow> CNum v)])
                               (filter (\<lambda>r. ticker r = s) (rows df))\<rparr>"
      using look [OF s] explicit_lines [OF c, of s] by (simp only:)
  qed
  have "?total ?files =
        sum_list (map (\<lambda>s. length (filter (\<lambda>r. ticker r = s) (rows df))) ?ks)"
    by (simp add: comp_def to_csv_def)
  also have "\<dots> = length (rows df)"
    by (rule sum_group_lengths) simp_all
  finally have count: "?total ?files = length (rows df)" .
  have pairs: "distinct (map group_key (rows df)) \<longrightarrow>
      ?total ?files = card (group_key ` set (rows df))"
    unfolding count using distinct_card [of "map group_key (rows df)"] by simp
  have pipeline: "\<forall>K raw m. aggregate_to_monthly raw = Inr m \<and>
      add_technical_indicators K m = Inr df \<longrightarrow>
      ?total ?files = card (group_key ` set (rows raw))"
    unfolding count
  proof (intro allI impI)
    fix K raw m
    assume h: "aggregate_to_monthly raw = Inr m \<and> add_technical_indicators K m = Inr df"
    then have "distinct (map group_key (rows df))"
      and "set (map group_key (rows df)) = group_key ` set (rows raw)"
      using pipeline_one_row_per_month by blast+
    then show "length (rows df) = card (group_key ` set (rows raw))"
      using distinct_card [of "map group_key (rows df)"] by simp
  qed
  show "\<exists>files.
       save_by_ticker writable df folder = (files, None) \<and>
       map fst files = map ?path ?ks \<and>
       distinct ?ks \<and>
       set ?ks = ticker ` set (rows df) \<and>
       distinct (map fst files) \<and>
       (\<forall>s \<in> ticker ` set (rows df).
          map_of files (?path s) =
            Some \<lparr>header = columns df,
                  body = map (\<lambda>r. map (\<lambda>c. cell_of c r) (columns df))
                           (filter (\<lambda>r. ticker r = s) (rows df))\<rparr>) \<and>
       (columns df =
          [''ticker'', ''date'', ''open'', ''close'', ''high'', ''low'', ''volume'',
           ''SMA_10'', ''SMA_20'', ''EMA_10'', ''EMA_20''] \<longrightarrow>
        (\<forall>s \<in> ticker ` set (rows df).
           map_of files (?path s) =
             Some \<lparr>header =
                     [''ticker'', ''date'', ''open'', ''close'', ''high'', ''low'', ''volume'',
                      ''SMA_10'', ''SMA_20'', ''EMA_10'', ''EMA_20''],
                   body = map (\<lambda>r. [CStr s, CDate (date r), CNum (open_p r), CNum (close r),
                                     CNum (high r), CNum (low r), CInt (volume r),
                                     (case SMA_10 r of None \<Rightarrow> CNull | Some v \<Rightarrow> CNum v),
                                     (case SMA_20 r of None \<Rightarrow> CNull | Some v \<Rightarrow> CNum v),
                                     (case EMA_10 r of None \<Rightarrow> CNull | Some v \<Rightarrow> CNum v),
                                     (case EMA_20 r of None \<Rightarrow> CNull | Some v \<Rightarrow> CNum v)])
                               (filter (\<lambda>r. ticker r = s) (rows df))\<rparr>)) \<and>
       ?total files = length (rows df) \<and>
       (distinct (map group_key (rows df)) \<longrightarrow>
          ?total files = card (group_key ` set (rows df))) \<and>
       (\<forall>K raw m. aggregate_to_monthly raw = Inr m \<and> add_technical_indicators K m = Inr df \<longrightarrow>
          ?total files = card (group_key ` set (rows raw)))"
    by (intro exI [of _ ?files] conjI)
      (fact run names d1 d2 dist look1 look2 count pairs pipeline)+
next
  fix pre s post
  assume h: "unique (map ticker (rows df)) = pre @ s # post \<and>
      (\<forall>t \<in> set pre. writable (path_join folder (''result_'' @ t @ ''.csv''))) \<and>
      \<not> writable (path_join folder (''result_'' @ s @ ''.csv''))"
  then show "save_by_ticker writable df folder =
        (map (\<lambda>t. (path_join folder (''result_'' @ t @ ''.csv''),
                    \<lparr>header = columns df,
                     body = map (\<lambda>r. map (\<lambda>c. cell_of c r) (columns df))
                              (filter (\<lambda>r. ticker r = t) (rows df))\<rparr>)) pre,
         Some (IOError (path_join folder (''result_'' @ s @ ''.csv''))))"
    using assms write_tickers_stop [of pre writable folder s df post]
    by (simp add: save_by_ticker_def to_csv_def)
qed

lemma main_written:
  assumes "main writable K parse csv = (files, err)" and "(p, f) \<in> set files"
  shows "\<exists>raw m. load_and_prepare_data parse csv = Inr raw \<and>
           aggregate_to_monthly raw = Inr m \<and>
           add_technical_indicators K m = Inr (indicator_frame K m) \<and>
           save_by_ticker writable (indicator_frame K m) OUTPUT_DIR = (files, err)"
proof -
  from assms(2) have ne: "files \<noteq> []" by auto
  obtain raw where raw: "load_and_prepare_data parse csv = Inr raw"
    using assms(1) ne by (cases "load_and_prepare_data parse csv") (auto simp: main_def)
  obtain m where m: "aggregate_to_monthly raw = Inr m"
    using assms(1) ne raw by (cases "aggregate_to_monthly raw") (auto simp: main_def)
  obtain final where final: "add_technical_indicators K m = Inr final"
    using assms(1) ne raw m by (cases "add_technical_indicators K m") (auto simp: main_def)
  have "final = indicator_frame K m"
    using final by (rule add_technical_indicators_InrD)
  with assms(1) raw m final show ?thesis
    by (simp add: main_def)
qed

lemma columns_indicator_frame:
  "columns (indicator_frame K df) =
     add_label ''EMA_20'' (add_label ''EMA_10'' (add_label ''SMA_20''
       (add_label ''SMA_10'' (columns df))))"
  by (simp add: indicator_frame_def Let_def)

lemma monthly_columns:
  "aggregate_to_monthly raw = Inr m \<Longrightarrow>
     columns m = [''ticker'', ''date'', ''open'', ''close'', ''high'', ''low'', ''volume'']"
  by (drule aggregate_to_monthly_InrD) (simp add: agg_columns_def)

lemma enriched_columns:
  "aggregate_to_monthly raw = Inr m \<Longrightarrow>
     columns (indicator_frame K m) =
       [''ticker'', ''date'', ''open'', ''close'', ''high'', ''low'', ''volume'',
        ''SMA_10'', ''SMA_20'', ''EMA_10'', ''EMA_20'']"
  by (simp add: columns_indicator_frame monthly_columns add_label_def)

text \<open>
  Claim C4 (as amended). In every run, and so in every successful one, every file written has
  the header ticker, date, open, close, high, low, volume, SMA_10, SMA_20, EMA_10, EMA_20
  (the aggregated columns in the order of the dictionary passed to \<^verbatim>\<open>agg\<close>), and every
  line has eleven cells: no index column.
\<close>

theorem artifact_header:
  assumes "main writable K parse csv = (files, err)" and "(p, f) \<in> set files"
  shows "header f = [''ticker'', ''date'', ''open'', ''close'', ''high'', ''low'', ''volume'',
                     ''SMA_10'', ''SMA_20'', ''EMA_10'', ''EMA_20''] \<and>
         (\<forall>line \<in> set (body f). length line = 11)"
proof -
  obtain raw m where m: "aggregate_to_monthly raw = Inr m"
    and save: "save_by_ticker writable (indicator_frame K m) OUTPUT_DIR = (files, err)"
    using main_written [OF assms] by blast
  have cols: "columns (indicator_frame K m) =
       [''ticker'', ''date'', ''open'', ''close'', ''high'', ''low'', ''volume'',
        ''SMA_10'', ''SMA_20'', ''EMA_10'', ''EMA_20'']"
    using m by (rule enriched_columns)
  then have "''ticker'' \<in> set (columns (indicator_frame K m))"
    by simp
  then have "files = fst (write_tickers writable (indicator_frame K m) OUTPUT_DIR
      (unique (map ticker (rows (indicator_frame K m)))))"
    using save by (simp add: save_by_ticker_def)
  with assms(2) have "header f = columns (indicator_frame K m) \<and>
     (\<forall>line \<in> set (body f). length line = length (columns (indicator_frame K m)))"
    using write_tickers_files by blast
  then show ?thesis
    unfolding cols by simp
qed

lemma example_main:
  "main output_only exact_numerics example_parse example_csv = (example_files, None)"
  by code_simp

theorem artifact_header_witness:
  "main output_only exact_numerics example_parse example_csv = (example_files, None) \<and>
   example_files ! 1 \<in> set example_files \<and>
   fst (example_files ! 1) = ''output/result_MSFT.csv'' \<and>
   header (snd (example_files ! 1)) =
     [''ticker'', ''date'', ''open'', ''close'', ''high'', ''low'', ''volume'',
      ''SMA_10'', ''SMA_20'', ''EMA_10'', ''EMA_20''] \<and>
   map length (body (snd (example_files ! 1))) = [11]"
proof -
  have mem: "(fst (example_files ! 1), snd (example_files ! 1)) \<in> set example_files"
    by (simp add: example_files_def)
  from artifact_header [OF example_main mem] example_main mem show ?thesis
    by (simp add: example_files_def)
qed

text \<open>
  The header of a written file has close before high and low: it is not ticker, date, open,
  high, low, close, volume, ...
\<close>

theorem header_order_counterexample:
  "snd (main output_only exact_numerics example_parse example_csv) = None \<and>
   map fst (fst (main output_only exact_numerics example_parse example_csv)) =
     [''output/result_AAPL.csv'', ''output/result_MSFT.csv''] \<and>
   map (\<lambda>pf. header (snd pf)) (fst (main output_only exact_numerics example_parse example_csv)) =
     [[''ticker'', ''date'', ''open'', ''close'', ''high'', ''low'', ''volume'',
       ''SMA_10'', ''SMA_20'', ''EMA_10'', ''EMA_20''],
      [''ticker'', ''date'', ''open'', ''close'', ''high'', ''low'', ''volume'',
       ''SMA_10'', ''SMA_20'', ''EMA_10'', ''EMA_20'']] \<and>
   header (snd (hd (fst (main output_only exact_numerics example_parse example_csv)))) \<noteq>
     [''ticker'', ''date'', ''open'', ''high'', ''low'', ''close'', ''volume'',
      ''SMA_10'', ''SMA_20'', ''EMA_10'', ''EMA_20'']"
  by (simp add: example_main example_files_def)

lemma main_load_error:
  "load_and_prepare_data parse csv = Inl e \<Longrightarrow> main writable K parse csv = ([], Some e)"
  by (simp add: main_def)

lemma load_columns:
  "load_and_prepare_data parse csv = Inr df \<Longrightarrow>
     columns df = columns csv \<and> ''ticker'' \<in> set (columns csv) \<and> ''date'' \<in> set (columns csv)"
  by (auto simp: load_and_prepare_data_def sort_values_def split: if_splits sum.splits)

text \<open>
  Claim C3 (as amended). The loader fails with \<open>SchemaError\<close> when the date column is
  absent, with \<open>ParseError\<close> when the date column is there and one of its cells does not
  parse, and with \<open>SchemaError\<close> when the dates parse and the ticker column is absent;
  otherwise it succeeds, whatever other columns are absent. An error of the loader ends the
  run. When the loader succeeds and one of open, close, high, low, volume is absent, the
  monthly aggregation fails with \<open>SchemaError\<close> on the absent labels, and that ends the
  run. In all these cases no file is written.
\<close>

theorem errors_abort_run:
  "(''date'' \<notin> set (columns csv) \<longrightarrow>
      load_and_prepare_data parse csv = Inl (SchemaError [''date''])) \<and>
   (''date'' \<in> set (columns csv) \<and> (\<exists>r \<in> set (rows csv). parse (date r) = None) \<longrightarrow>
      (\<exists>s. load_and_prepare_data parse csv = Inl (ParseError s) \<and> parse s = None)) \<and>
   (''date'' \<in> set (columns csv) \<and> (\<forall>r \<in> set (rows csv). parse (date r) \<noteq> None) \<and>
    ''ticker'' \<notin> set (columns csv) \<longrightarrow>
      load_and_prepare_data parse csv = Inl (SchemaError [''ticker''])) \<and>
   (''date'' \<in> set (columns csv) \<and> (\<forall>r \<in> set (rows csv). parse (date r) \<noteq> None) \<and>
    ''ticker'' \<in> set (columns csv) \<longrightarrow>
      (\<exists>df. load_and_prepare_data parse csv = Inr df)) \<and>
   (\<forall>e. load_and_prepare_data parse csv = Inl e \<longrightarrow>
      main writable K parse csv = ([], Some e)) \<and>
   (\<forall>df. load_and_prepare_data parse csv = Inr df \<and> \<not> set agg_columns \<subseteq> set (columns csv) \<longrightarrow>
      aggregate_to_monthly df =
        Inl (SchemaError (sort (filter (\<lambda>c. c \<notin> set (columns csv)) agg_columns))) \<and>
      main writable K parse csv =
        ([], Some (SchemaError (sort (filter (\<lambda>c. c \<notin> set (columns csv)) agg_columns)))))"
proof (intro conjI impI allI)
  assume "''date'' \<notin> set (columns csv)"
  then show "load_and_prepare_data parse csv = Inl (SchemaError [''date''])"
    by (simp add: load_and_prepare_data_def)
next
  assume h: "''date'' \<in> set (columns csv) \<and> (\<exists>r \<in> set (rows csv). parse (date r) = None)"
  then obtain e where e: "to_datetime parse (rows csv) = Inl e"
    using to_datetime_Inl [of parse "rows csv"] by blast
  then obtain s where "e = ParseError s" "parse s = None"
    using to_datetime_error_kind by blast
  with h e show "\<exists>s. load_and_prepare_data parse csv = Inl (ParseError s) \<and> parse s = None"
    by (simp add: load_and_prepare_data_def)
next
  assume "''date'' \<in> set (columns csv) \<and> (\<forall>r \<in> set (rows csv). parse (date r) \<noteq> None) \<and>
    ''ticker'' \<notin> set (columns csv)"
  then show "load_and_prepare_data parse csv = Inl (SchemaError [''ticker''])"
    by (simp add: load_and_prepare_data_def to_datetime_total sort_values_def)
next
  assume "''date'' \<in> set (columns csv) \<and> (\<forall>r \<in> set (rows csv). parse (date r) \<noteq> None) \<and>
    ''ticker'' \<in> set (columns csv)"
  then show "\<exists>df. load_and_prepare_data parse csv = Inr df"
    by (simp add: load_and_prepare_data_def to_datetime_total sort_values_def)
next
  fix e assume "load_and_prepare_data parse csv = Inl e"
  then show "main writable K parse csv = ([], Some e)"
    by (rule main_load_error)
next
  fix df
  assume h: "load_and_prepare_data parse csv = Inr df \<and> \<not> set agg_columns \<subseteq> set (columns csv)"
  then have cols: "columns df = columns csv" "''ticker'' \<in> set (columns csv)"
    "''date'' \<in> set (columns csv)"
    using load_columns by blast+
  with h show agg: "aggregate_to_monthly df =
      Inl (SchemaError (sort (filter (\<lambda>c. c \<notin> set (columns csv)) agg_columns)))"
    by (simp add: aggregate_to_monthly_def)
  with h show "main writable K parse csv =
      ([], Some (SchemaError (sort (filter (\<lambda>c. c \<notin> set (columns csv)) agg_columns))))"
    by (simp add: main_def)
qed

lemma no_open_loads:
  "load_and_prepare_data example_parse no_open_csv =
     Inr \<lparr>columns = [''ticker'', ''date'', ''high'', ''low'', ''close'', ''volume''],
          rows = [mk_row ''AAPL'' (2024, 1, 20) 0 8 4 6 30,
                  mk_row ''MSFT'' (2024, 1, 5) 0 12 9 11 100]\<rparr>"
  by (simp add: load_and_prepare_data_def no_open_csv_def example_parse_def mk_row_def
      set_date_def sort_values_def sort_by_def)

theorem errors_abort_run_witness:
  "''date'' \<notin> set (columns no_date_csv) \<and>
   main output_only exact_numerics example_parse no_date_csv =
     ([], Some (SchemaError [''date''])) \<and>
   ''date'' \<in> set (columns bad_date_csv) \<and>
   example_parse ''not-a-date'' = None \<and>
   load_and_prepare_data example_parse bad_date_csv = Inl (ParseError ''not-a-date'') \<and>
   main output_only exact_numerics example_parse bad_date_csv =
     ([], Some (ParseError ''not-a-date'')) \<and>
   ''ticker'' \<notin> set (columns no_ticker_csv) \<and>
   main output_only exact_numerics example_parse no_ticker_csv =
     ([], Some (SchemaError [''ticker''])) \<and>
   ''open'' \<notin> set (columns no_open_csv) \<and>
   aggregate_to_monthly (projr (load_and_prepare_data example_parse no_open_csv)) =
     Inl (SchemaError [''open'']) \<and>
   main output_only exact_numerics example_parse no_open_csv =
     ([], Some (SchemaError [''open'']))"
proof -
  have bad: "load_and_prepare_data example_parse bad_date_csv = Inl (ParseError ''not-a-date'')"
    by (simp add: load_and_prepare_data_def bad_date_csv_def raw_columns_def example_parse_def
        mk_row_def)
  have miss: "\<not> set agg_columns \<subseteq> set (columns no_open_csv)"
    "sort (filter (\<lambda>c. c \<notin> set (columns no_open_csv)) agg_columns) = [''open'']"
    by (simp_all add: agg_columns_def no_open_csv_def)
  have nd: "''date'' \<notin> set (columns no_date_csv)"
    by (simp add: no_date_csv_def)
  have nt: "''date'' \<in> set (columns no_ticker_csv)" "''ticker'' \<notin> set (columns no_ticker_csv)"
    "list_all (\<lambda>r. example_parse (date r) \<noteq> None) (rows no_ticker_csv)"
    by (simp_all add: no_ticker_csv_def example_parse_def mk_row_def)
  note t = errors_abort_run [of bad_date_csv example_parse output_only exact_numerics]
  note u = errors_abort_run [of no_open_csv example_parse output_only exact_numerics]
  note v = errors_abort_run [of no_date_csv example_parse output_only exact_numerics]
  note w = errors_abort_run [of no_ticker_csv example_parse output_only exact_numerics]
  have m0: "main output_only exact_numerics example_parse no_date_csv =
      ([], Some (SchemaError [''date'']))"
    using v nd by blast
  have m1: "main output_only exact_numerics example_parse bad_date_csv =
      ([], Some (ParseError ''not-a-date''))"
    using t bad by blast
  have m2: "aggregate_to_monthly (projr (load_and_prepare_data example_parse no_open_csv)) =
     Inl (SchemaError [''open''])"
    "main output_only exact_numerics example_parse no_open_csv =
       ([], Some (SchemaError [''open'']))"
    using u no_open_loads miss by simp_all
  have "load_and_prepare_data example_parse no_ticker_csv = Inl (SchemaError [''ticker''])"
    using w nt by (simp add: list_all_iff)
  then have m3: "main output_only exact_numerics example_parse no_ticker_csv =
      ([], Some (SchemaError [''ticker'']))"
    using w by blast
  show ?thesis
    using bad m0 m1 m2 m3 nd nt
    by (simp add: bad_date_csv_def raw_columns_def example_parse_def no_open_csv_def)
qed

text \<open>
  An input without the open column passes the loader: it returns the sorted rows.
\<close>

theorem loader_schema_counterexample:
  "''open'' \<notin> set (columns no_open_csv) \<and>
   load_and_prepare_data example_parse no_open_csv =
     Inr \<lparr>columns = [''ticker'', ''date'', ''high'', ''low'', ''close'', ''volume''],
          rows = [mk_row ''AAPL'' (2024, 1, 20) 0 8 4 6 30,
                  mk_row ''MSFT'' (2024, 1, 5) 0 12 9 11 100]\<rparr>"
  using no_open_loads by (simp add: no_open_csv_def)

lemma sorted_month_monthly: "aggregate_to_monthly sorted_month = Inr monthly_jan"
  by (simp add: sorted_month_def monthly_jan_def raw_columns_def agg_columns_def
      aggregate_to_monthly_def group_key_def month_end_def days_in_month_def is_leap_def
      mk_row_def agg_group_def)

lemma monthly_jan_ok:
  "add_technical_indicators exact_numerics monthly_jan =
     Inr (indicator_frame exact_numerics monthly_jan)"
  by (simp add: add_technical_indicators_eq monthly_jan_def)

lemma slash_table_written:
  "save_by_ticker output_only slash_table OUTPUT_DIR =
     ([(''output/result_AAA.csv'',
        \<lparr>header = [''ticker'', ''date'', ''open'', ''close'', ''high'', ''low'', ''volume'',
                   ''SMA_10'', ''SMA_20'', ''EMA_10'', ''EMA_20''],
         body = [[CStr ''AAA'', CDate (2024, 1, 31), CNum 2, CNum 3, CNum 4, CNum 1,
                  CInt 10, CNull, CNull, CNum 3, CNum 3]]\<rparr>)],
      Some (IOError ''output/result_BRK/B.csv''))"
  by code_simp

theorem one_file_per_ticker_witness:
  "''ticker'' \<in> set (columns monthly_13) \<and>
   unique (map ticker (rows monthly_13)) = [''BBB'', ''AAA''] \<and>
   output_only ''output/result_BBB.csv'' \<and> output_only ''output/result_AAA.csv'' \<and>
   snd (save_by_ticker output_only monthly_13 OUTPUT_DIR) = None \<and>
   map fst (fst (save_by_ticker output_only monthly_13 OUTPUT_DIR)) =
     [''output/result_BBB.csv'', ''output/result_AAA.csv''] \<and>
   map (\<lambda>pf. length (body (snd pf))) (fst (save_by_ticker output_only monthly_13 OUTPUT_DIR)) =
     [2, 13] \<and>
   distinct (map group_key (rows monthly_13)) \<and>
   card (group_key ` set (rows monthly_13)) = 15 \<and>
   aggregate_to_monthly sorted_month = Inr monthly_jan \<and>
   add_technical_indicators exact_numerics monthly_jan =
     Inr (indicator_frame exact_numerics monthly_jan) \<and>
   output_only ''output/result_AAPL.csv'' \<and>
   fst (save_by_ticker output_only (indicator_frame exact_numerics monthly_jan) OUTPUT_DIR) =
     [(''output/result_AAPL.csv'',
       \<lparr>header = [''ticker'', ''date'', ''open'', ''close'', ''high'', ''low'', ''volume'',
                  ''SMA_10'', ''SMA_20'', ''EMA_10'', ''EMA_20''],
        body = [[CStr ''AAPL'', CDate (2024, 1, 31), CNum 3, CNum 7, CNum 9, CNum 2,
                 CInt 60, CNull, CNull, CNum 7, CNum 7]]\<rparr>)] \<and>
   card (group_key ` set (rows sorted_month)) = 1 \<and>
   ''ticker'' \<in> set (columns slash_table) \<and>
   unique (map ticker (rows slash_table)) = [''AAA''] @ ''BRK/B'' # [''CCC''] \<and>
   \<not> output_only ''output/result_BRK/B.csv'' \<and>
   snd (save_by_ticker output_only slash_table OUTPUT_DIR) =
     Some (IOError ''output/result_BRK/B.csv'')"
proof -
  have sw: "(\<lambda>(p, f). length (body f)) = (\<lambda>pf :: string \<times> csv_file. length (body (snd pf)))"
    by auto
  have c: "''ticker'' \<in> set (columns monthly_13)"
    by (simp add: monthly_13_def)
  have ks: "unique (map ticker (rows monthly_13)) = [''BBB'', ''AAA'']"
    by code_simp
  have w1: "output_only ''output/result_BBB.csv''" and w2: "output_only ''output/result_AAA.csv''"
    and w3: "output_only ''output/result_AAPL.csv''"
    and w4: "\<not> output_only ''output/result_BRK/B.csv''"
    by code_simp+
  have "ticker ` set (rows monthly_13) = {''BBB'', ''AAA''}"
    by (auto simp: monthly_13_def mk_row_def)
  then have w13: "\<forall>s \<in> ticker ` set (rows monthly_13).
      output_only (path_join OUTPUT_DIR (''result_'' @ s @ ''.csv''))"
    using w1 w2 by (simp add: path_join_def OUTPUT_DIR_def)
  have d: "distinct (map group_key (rows monthly_13))"
    by (simp add: monthly_13_def mk_row_def group_key_def month_end_def days_in_month_def
        is_leap_def)
  have names: "map fst (fst (save_by_ticker output_only monthly_13 OUTPUT_DIR)) =
     [''output/result_BBB.csv'', ''output/result_AAA.csv'']"
    by code_simp
  have lens: "map (\<lambda>pf. length (body (snd pf)))
      (fst (save_by_ticker output_only monthly_13 OUTPUT_DIR)) = [2, 13]"
    by code_simp
  note A = one_file_per_ticker [OF c, of output_only OUTPUT_DIR, THEN conjunct1, THEN mp, OF w13]
  then obtain files where r: "save_by_ticker output_only monthly_13 OUTPUT_DIR = (files, None)"
    and p: "distinct (map group_key (rows monthly_13)) \<longrightarrow>
       sum_list (map (\<lambda>(p, f). length (body f)) files) = card (group_key ` set (rows monthly_13))"
    by (elim exE conjE)
  have ok13: "snd (save_by_ticker output_only monthly_13 OUTPUT_DIR) = None"
    by (simp only: r snd_conv)
  have "sum_list (map (\<lambda>pf. length (body (snd pf)))
          (fst (save_by_ticker output_only monthly_13 OUTPUT_DIR))) =
        card (group_key ` set (rows monthly_13))"
    using p d unfolding sw r by simp
  then have card13: "card (group_key ` set (rows monthly_13)) = 15"
    unfolding lens by simp
  have c': "''ticker'' \<in> set (columns (indicator_frame exact_numerics monthly_jan))"
    by (simp add: columns_indicator_frame add_label_def monthly_jan_def)
  have files': "fst (save_by_ticker output_only (indicator_frame exact_numerics monthly_jan)
      OUTPUT_DIR) =
     [(''output/result_AAPL.csv'',
       \<lparr>header = [''ticker'', ''date'', ''open'', ''close'', ''high'', ''low'', ''volume'',
                  ''SMA_10'', ''SMA_20'', ''EMA_10'', ''EMA_20''],
        body = [[CStr ''AAPL'', CDate (2024, 1, 31), CNum 3, CNum 7, CNum 9, CNum 2,
                 CInt 60, CNull, CNull, CNum 7, CNum 7]]\<rparr>)]"
    by code_simp
  have "map ticker (rows (indicator_frame exact_numerics monthly_jan)) = [''AAPL'']"
    by code_simp
  then have "set (map ticker (rows (indicator_frame exact_numerics monthly_jan))) = set [''AAPL'']"
    by (simp only:)
  then have "ticker ` set (rows (indicator_frame exact_numerics monthly_jan)) = {''AAPL''}"
    by simp
  then have wjan: "\<forall>s \<in> ticker ` set (rows (indicator_frame exact_numerics monthly_jan)).
      output_only (path_join OUTPUT_DIR (''result_'' @ s @ ''.csv''))"
    using w3 by (simp add: path_join_def OUTPUT_DIR_def)
  note A' = one_file_per_ticker [OF c', of output_only OUTPUT_DIR, THEN conjunct1, THEN mp,
      OF wjan]
  then obtain files1 where r': "save_by_ticker output_only
        (indicator_frame exact_numerics monthly_jan) OUTPUT_DIR = (files1, None)"
    and pipe: "\<forall>K raw m. aggregate_to_monthly raw = Inr m \<and>
        add_technical_indicators K m = Inr (indicator_frame exact_numerics monthly_jan) \<longrightarrow>
        sum_list (map (\<lambda>(p, f). length (body f)) files1) = card (group_key ` set (rows raw))"
    by (elim exE conjE)
  have "sum_list (map (\<lambda>(p, f). length (body f)) files1) =
        card (group_key ` set (rows sorted_month))"
    using pipe sorted_month_monthly monthly_jan_ok by blast
  moreover have "files1 = fst (save_by_ticker output_only
        (indicator_frame exact_numerics monthly_jan) OUTPUT_DIR)"
    by (simp only: r' fst_conv)
  ultimately have card1: "card (group_key ` set (rows sorted_month)) = 1"
    unfolding files' by simp
  have cs: "''ticker'' \<in> set (columns slash_table)"
    by (simp add: slash_table_def)
  have kss: "unique (map ticker (rows slash_table)) = [''AAA''] @ ''BRK/B'' # [''CCC'']"
    by code_simp
  have wpre: "\<forall>t \<in> set [''AAA'']. output_only (path_join OUTPUT_DIR (''result_'' @ t @ ''.csv''))"
    using w2 by (simp add: path_join_def OUTPUT_DIR_def)
  have wbad: "\<not> output_only (path_join OUTPUT_DIR (''result_'' @ ''BRK/B'' @ ''.csv''))"
    using w4 by (simp add: path_join_def OUTPUT_DIR_def)
  note B = one_file_per_ticker [OF cs, of output_only OUTPUT_DIR, THEN conjunct2, rule_format,
      of "[''AAA'']" "''BRK/B''" "[''CCC'']", OF conjI [OF kss conjI [OF wpre wbad]]]
  have "snd (save_by_ticker output_only slash_table OUTPUT_DIR) =
     Some (IOError (path_join OUTPUT_DIR (''result_'' @ ''BRK/B'' @ ''.csv'')))"
    by (simp only: B snd_conv)
  then have stop: "snd (save_by_ticker output_only slash_table OUTPUT_DIR) =
     Some (IOError ''output/result_BRK/B.csv'')"
    by (simp add: path_join_def OUTPUT_DIR_def)
  show ?thesis
    by (intro conjI)
      (fact c ks w1 w2 w3 w4 ok13 names lens d card13 sorted_month_monthly monthly_jan_ok
        files' card1 cs kss stop)+
qed

text \<open>
  A table with the tickers AAA, BRK/B and CCC, written into a file system where only the
  output directory exists: the path of BRK/B lies in a directory \<open>output/result_BRK\<close> that
  does not exist, the write fails, and of the three tickers only AAA has a file.
\<close>

theorem unwritable_ticker_counterexample:
  "map ticker (rows slash_table) = [''AAA'', ''BRK/B'', ''CCC''] \<and>
   parent_dir ''output/result_BRK/B.csv'' = ''output/result_BRK'' \<and>
   save_by_ticker output_only slash_table OUTPUT_DIR =
     ([(''output/result_AAA.csv'',
        \<lparr>header = [''ticker'', ''date'', ''open'', ''close'', ''high'', ''low'', ''volume'',
                   ''SMA_10'', ''SMA_20'', ''EMA_10'', ''EMA_20''],
         body = [[CStr ''AAA'', CDate (2024, 1, 31), CNum 2, CNum 3, CNum 4, CNum 1,
                  CInt 10, CNull, CNull, CNum 3, CNum 3]]\<rparr>)],
      Some (IOError ''output/result_BRK/B.csv''))"
proof -
  have "map ticker (rows slash_table) = [''AAA'', ''BRK/B'', ''CCC'']"
    by code_simp
  moreover have "parent_dir ''output/result_BRK/B.csv'' = ''output/result_BRK''"
    by code_simp
  ultimately show ?thesis
    using slash_table_written by simp
qed

end
